theory Spec2Isabelle
  imports Complex_Main "HOL-Library.Char_ord" "HOL-Library.List_Lexorder"
begin

section \<open>Ledger (blockchain.py)\<close>

text \<open>
  The ledger calls two library functions, \<open>hashlib.sha256(s.encode()).hexdigest()\<close> and
  \<open>json.dumps(data, sort_keys=True)\<close>. Neither is code of the repository, so every
  definition below takes them as the parameters \<open>sha256_hex\<close> and \<open>json_dumps\<close>;
  the payload type \<open>'d\<close> is whatever the serialiser accepts.
\<close>

record 'd block =
  index :: int
  timestamp :: string
  data :: 'd
  previous_hash :: string
  nonce :: int
  hash :: string

text \<open>Python's \<open>str\<close> of an integer, as the f-string of \<open>calculate_hash\<close> renders it.\<close>

definition digit_char :: "nat \<Rightarrow> char" where
  "digit_char n = char_of (48 + n)"

fun str_nat :: "nat \<Rightarrow> string" where
  "str_nat n = (if n < 10 then [digit_char n] else str_nat (n div 10) @ [digit_char (n mod 10)])"

declare str_nat.simps [simp del]

definition str_int :: "int \<Rightarrow> string" where
  "str_int i = (if i < 0 then CHR ''-'' # str_nat (nat (- i)) else str_nat (nat i))"

definition block_string :: "('d \<Rightarrow> string) \<Rightarrow> 'd block \<Rightarrow> string" where
  "block_string json_dumps b =
     str_int (index b) @ timestamp b @ json_dumps (data b) @ previous_hash b @ str_int (nonce b)"

definition calculate_hash :: "(string \<Rightarrow> string) \<Rightarrow> ('d \<Rightarrow> string) \<Rightarrow> 'd block \<Rightarrow> string" where
  "calculate_hash sha256_hex json_dumps b = sha256_hex (block_string json_dumps b)"

text \<open>The constructor \<open>Block.__init__\<close>: nonce 0, hash computed from the other fields.\<close>

definition Block :: "(string \<Rightarrow> string) \<Rightarrow> ('d \<Rightarrow> string) \<Rightarrow> int \<Rightarrow> string \<Rightarrow> 'd \<Rightarrow> string \<Rightarrow> 'd block" where
  "Block sha256_hex json_dumps i ts d ph =
     (let b = \<lparr>index = i, timestamp = ts, data = d, previous_hash = ph, nonce = 0, hash = []\<rparr>
      in b\<lparr>hash := calculate_hash sha256_hex json_dumps b\<rparr>)"

text \<open>
  Python's \<open>s[:k]\<close> (a negative \<open>k\<close> drops the last \<open>-k\<close> characters) and \<open>"0" * k\<close>
  (empty for a negative \<open>k\<close>).
\<close>

definition py_prefix :: "int \<Rightarrow> string \<Rightarrow> string" where
  "py_prefix k s = (if 0 \<le> k then take (nat k) s else take (nat (int (length s) + k)) s)"

definition target :: "int \<Rightarrow> string" where
  "target difficulty = replicate (nat difficulty) CHR ''0''"

text \<open>
  \<open>Block.mine_block\<close>: the \<open>while\<close> loop has no bound, so the model is a partial function
  and \<open>None\<close> stands for a search that never ends.
\<close>

partial_function (option) mine_block ::
  "(string \<Rightarrow> string) \<Rightarrow> ('d \<Rightarrow> string) \<Rightarrow> int \<Rightarrow> 'd block \<Rightarrow> 'd block option" where
  "mine_block sha256_hex json_dumps difficulty b =
     (if py_prefix difficulty (hash b) \<noteq> target difficulty
      then mine_block sha256_hex json_dumps difficulty
             (let b1 = b\<lparr>nonce := nonce b + 1\<rparr>
              in b1\<lparr>hash := calculate_hash sha256_hex json_dumps b1\<rparr>)
      else Some b)"

declare mine_block.simps [code]

text \<open>
  \<open>Blockchain\<close>: the in-memory chain and the difficulty. \<open>save_chain\<close> writes the chain
  to the chain file inside its own \<open>try\<close> and absorbs every exception, so it leaves the
  object as it is whether the file is written or not; the content of the file is not part
  of the state. The clock readings of \<open>datetime.now()\<close> are arguments.
\<close>

record 'd blockchain =
  chain :: "'d block list"
  difficulty :: int

definition save_chain :: "'d blockchain \<Rightarrow> 'd blockchain" where
  "save_chain bc = bc"

definition get_latest_block :: "'d blockchain \<Rightarrow> 'd block option" where
  "get_latest_block bc = (if chain bc \<noteq> [] then Some (last (chain bc)) else None)"

text \<open>
  \<open>create_genesis_block\<close>; \<open>genesis_data\<close> is the dictionary built from the clock, \<open>now\<close>
  the rendered timestamp.
\<close>

definition create_genesis_block ::
  "(string \<Rightarrow> string) \<Rightarrow> ('d \<Rightarrow> string) \<Rightarrow> 'd \<Rightarrow> string \<Rightarrow> 'd blockchain \<Rightarrow> 'd blockchain option" where
  "create_genesis_block sha256_hex json_dumps genesis_data now bc =
     (case mine_block sha256_hex json_dumps (difficulty bc)
             (Block sha256_hex json_dumps 0 now genesis_data ''0'') of
        None \<Rightarrow> None
      | Some genesis_block \<Rightarrow> Some (save_chain (bc\<lparr>chain := chain bc @ [genesis_block]\<rparr>)))"

text \<open>
  \<open>add_block\<close> returns the new hash, or \<open>None\<close> (Python's) when the chain is empty or
  when an exception is caught; the outer option is \<open>None\<close> when mining does not return.
  Inside the \<open>try\<close> only the construction of the block can raise (the serialiser refusing
  the payload), which is before the chain is touched: \<open>raised\<close> says that it does.
\<close>

definition add_block ::
  "(string \<Rightarrow> string) \<Rightarrow> ('d \<Rightarrow> string) \<Rightarrow> string \<Rightarrow> 'd \<Rightarrow> bool \<Rightarrow> 'd blockchain
     \<Rightarrow> ('d blockchain \<times> string option) option" where
  "add_block sha256_hex json_dumps now d raised bc =
     (case get_latest_block bc of
        None \<Rightarrow> Some (bc, None)
      | Some latest_block \<Rightarrow>
          if raised then Some (bc, None)
          else
            (case mine_block sha256_hex json_dumps (difficulty bc)
                    (Block sha256_hex json_dumps (int (length (chain bc))) now d (hash latest_block)) of
               None \<Rightarrow> None
             | Some new_block \<Rightarrow>
                 Some (save_chain (bc\<lparr>chain := chain bc @ [new_block]\<rparr>), Some (hash new_block))))"

text \<open>
  \<open>is_chain_valid\<close>: the loop \<open>for i in range(1, len(self.chain))\<close> with its two early
  returns.
\<close>

fun is_chain_valid_loop ::
  "(string \<Rightarrow> string) \<Rightarrow> ('d \<Rightarrow> string) \<Rightarrow> 'd block list \<Rightarrow> nat list \<Rightarrow> bool" where
  "is_chain_valid_loop sha256_hex json_dumps c [] = True"
| "is_chain_valid_loop sha256_hex json_dumps c (i # rest) =
     (let current_block = c ! i; previous_block = c ! (i - 1)
      in if hash current_block \<noteq> calculate_hash sha256_hex json_dumps current_block then False
         else if previous_hash current_block \<noteq> hash previous_block then False
         else is_chain_valid_loop sha256_hex json_dumps c rest)"

definition is_chain_valid :: "(string \<Rightarrow> string) \<Rightarrow> ('d \<Rightarrow> string) \<Rightarrow> 'd blockchain \<Rightarrow> bool" where
  "is_chain_valid sha256_hex json_dumps bc =
     is_chain_valid_loop sha256_hex json_dumps (chain bc) [1 ..< length (chain bc)]"

section \<open>Numbers\<close>

text \<open>
  Python floats are modelled as real numbers. \<open>round(x, ndigits)\<close> rounds to the nearest
  multiple of \<open>10 ^ -ndigits\<close>, a tie going to the even neighbour.
\<close>

definition py_round :: "nat \<Rightarrow> real \<Rightarrow> real" where
  "py_round ndigits x =
     (let y = x * 10 ^ ndigits; f = \<lfloor>y\<rfloor>; r = y - of_int f
      in of_int (if r < 1 / 2 then f else if 1 / 2 < r then f + 1
                 else if even f then f else f + 1) / 10 ^ ndigits)"

text \<open>
  The liveness scorer and the smoother compute on IEEE doubles. A double is modelled as
  the real number it denotes, so comparisons, \<open>min\<close> and \<open>max\<close> are those of the reals;
  the operations that round are parameters: the value of a decimal literal, the four
  arithmetic operations, \<open>np.mean\<close> and \<open>round\<close>.
\<close>

record float_ops =
  fl_lit :: "real \<Rightarrow> real"
  fl_add :: "real \<Rightarrow> real \<Rightarrow> real"
  fl_sub :: "real \<Rightarrow> real \<Rightarrow> real"
  fl_mul :: "real \<Rightarrow> real \<Rightarrow> real"
  fl_div :: "real \<Rightarrow> real \<Rightarrow> real"
  fl_mean :: "real list \<Rightarrow> real"
  fl_round :: "nat \<Rightarrow> real \<Rightarrow> real"

text \<open>
  The arithmetic of binary64 below the overflow threshold: \<open>to_double\<close> rounds a real to
  the nearest double, ties to the even significand (53 bits, gradual underflow below
  \<open>2\<^sup>-\<^sup>1\<^sup>0\<^sup>2\<^sup>2\<close>), and every operation is the exact one followed by this rounding.
  \<open>round(x, n)\<close> is that of a Python float, the double nearest to the decimal that
  \<open>py_round\<close> gives; the mean adds the readings from left to right, as \<open>np.mean\<close> does
  on fewer than eight of them. \<open>numpy_round\<close> is \<open>round(x, n)\<close> of a numpy double, which
  scales by \<open>10\<^sup>n\<close>, rounds to the nearest integer and scales back.
\<close>

function bit_length :: "int \<Rightarrow> int" where
  "bit_length n = (if n \<le> 0 then 0 else 1 + bit_length (n div 2))"
  by pat_completeness auto

termination bit_length
  by (relation "measure nat") auto

declare bit_length.simps [simp del]

definition binary_exponent :: "real \<Rightarrow> int" where
  "binary_exponent a =
     (if 1 \<le> a then bit_length \<lfloor>a\<rfloor> - 1 else - bit_length (\<lceil>1 / a\<rceil> - 1))"

definition round_half_even :: "real \<Rightarrow> int" where
  "round_half_even y =
     (let f = \<lfloor>y\<rfloor>; r = y - of_int f
      in if r < 1 / 2 then f else if 1 / 2 < r then f + 1 else if even f then f else f + 1)"

definition to_double :: "real \<Rightarrow> real" where
  "to_double x =
     (if x = 0 then 0
      else let e = max (binary_exponent \<bar>x\<bar>) (- 1022);
               ulp = (if 52 \<le> e then 2 ^ nat (e - 52) else 1 / 2 ^ nat (52 - e))
           in of_int (round_half_even (x / ulp)) * ulp)"

definition numpy_round :: "nat \<Rightarrow> real \<Rightarrow> real" where
  "numpy_round ndigits x =
     to_double (of_int (round_half_even (to_double (x * 10 ^ ndigits))) / 10 ^ ndigits)"

definition ieee_double :: float_ops where
  "ieee_double =
     \<lparr>fl_lit = to_double,
      fl_add = (\<lambda>x y. to_double (x + y)), fl_sub = (\<lambda>x y. to_double (x - y)),
      fl_mul = (\<lambda>x y. to_double (x * y)), fl_div = (\<lambda>x y. to_double (x / y)),
      fl_mean = (\<lambda>xs. to_double (foldl (\<lambda>acc x. to_double (acc + x)) 0 xs / real (length xs))),
      fl_round = (\<lambda>ndigits x. to_double (py_round ndigits x))\<rparr>"

text \<open>\<open>collections.deque(maxlen=n).append\<close>: the oldest entry leaves a full window.\<close>

definition deque_append :: "nat \<Rightarrow> 'a list \<Rightarrow> 'a \<Rightarrow> 'a list" where
  "deque_append maxlen xs x = (let ys = xs @ [x] in drop (length ys - maxlen) ys)"

section \<open>Engagement score (emotion_detector.py)\<close>

definition ENGAGED_EMOTIONS :: "string list" where
  "ENGAGED_EMOTIONS = [''Happy'', ''Surprise'']"

definition DISENGAGED_EMOTIONS :: "string list" where
  "DISENGAGED_EMOTIONS = [''Sad'', ''Anger'', ''Fear'']"

definition calculate_engagement_score :: "string list \<Rightarrow> real" where
  "calculate_engagement_score emotion_history =
     (if emotion_history = [] then 50
      else
        let engaged_count = length (filter (\<lambda>e. e \<in> set ENGAGED_EMOTIONS) emotion_history);
            disengaged_count = length (filter (\<lambda>e. e \<in> set DISENGAGED_EMOTIONS) emotion_history);
            total = length emotion_history;
            engagement_ratio = (real engaged_count - real disengaged_count * 0.5) / real total;
            score = 50 + engagement_ratio * 50;
            score = max 0 (min 100 score)
        in py_round 2 score)"

text \<open>
  The formula as the specification words it: \<open>50 + 50 \<times> (engaged_count \<midarrow> 0.5 \<times>
  disengaged_count) / window_size\<close>, clamped to \<open>[0, 100]\<close>, with engaged = Happy, Surprise
  and disengaged = Sad, Anger, Fear.
\<close>

definition spec_engagement_score :: "string list \<Rightarrow> real" where
  "spec_engagement_score window =
     (let engaged_count = real (length (filter (\<lambda>e. e = ''Happy'' \<or> e = ''Surprise'') window));
          disengaged_count =
            real (length (filter (\<lambda>e. e = ''Sad'' \<or> e = ''Anger'' \<or> e = ''Fear'') window));
          window_size = real (length window)
      in max 0 (min 100 (50 + 50 * (engaged_count - 0.5 * disengaged_count) / window_size)))"

section \<open>Detection tracker (gui_application.py, AttendanceTracker)\<close>

record track_state =
  consecutive_detections :: int
  last_seen :: int
  is_stable :: bool

record tracker =
  detection_history :: "string \<rightharpoonup> track_state"
  detection_threshold :: int
  detection_cooldown :: int
  display_duration :: int
  frame_count :: int
  recognized_today :: "string set"
  liveness_history :: "string \<rightharpoonup> real list"
  liveness_window :: nat

definition AttendanceTracker :: tracker where
  "AttendanceTracker =
     \<lparr>detection_history = Map.empty, detection_threshold = 5, detection_cooldown = 30,
      display_duration = 45, frame_count = 0, recognized_today = {},
      liveness_history = Map.empty, liveness_window = 10\<rparr>"

definition get_state :: "tracker \<Rightarrow> string \<Rightarrow> track_state" where
  "get_state tr user_id =
     (case detection_history tr user_id of
        None \<Rightarrow> \<lparr>consecutive_detections = 0, last_seen = 0, is_stable = False\<rparr>
      | Some state \<Rightarrow> state)"

definition update_detection :: "tracker \<Rightarrow> string \<Rightarrow> bool \<Rightarrow> tracker \<times> bool" where
  "update_detection tr user_id is_detected =
     (let current_frame = frame_count tr;
          state = get_state tr user_id;
          state =
            (if is_detected then
               let state = state\<lparr>consecutive_detections := consecutive_detections state + 1,
                                 last_seen := current_frame\<rparr>
               in if consecutive_detections state \<ge> detection_threshold tr
                  then state\<lparr>is_stable := True\<rparr> else state
             else
               let frames_since_seen = current_frame - last_seen state
               in if frames_since_seen > detection_cooldown tr
                  then state\<lparr>consecutive_detections := 0, is_stable := False\<rparr> else state)
      in (tr\<lparr>detection_history := (detection_history tr)(user_id \<mapsto> state)\<rparr>, is_stable state))"

definition update_liveness_smooth ::
  "float_ops \<Rightarrow> tracker \<Rightarrow> string \<Rightarrow> real \<Rightarrow> tracker \<times> bool \<times> real" where
  "update_liveness_smooth fl tr user_id liveness_score =
     (let window = (case liveness_history tr user_id of None \<Rightarrow> [] | Some w \<Rightarrow> w);
          window = deque_append (liveness_window tr) window liveness_score;
          smoothed_score = fl_mean fl window;
          is_live = (smoothed_score \<ge> fl_lit fl 0.7)
      in (tr\<lparr>liveness_history := (liveness_history tr)(user_id \<mapsto> window)\<rparr>, is_live, smoothed_score))"

definition should_display :: "tracker \<Rightarrow> string \<Rightarrow> bool" where
  "should_display tr user_id =
     (case detection_history tr user_id of
        None \<Rightarrow> False
      | Some state \<Rightarrow> is_stable state \<and> frame_count tr - last_seen state < display_duration tr)"

definition increment_frame :: "tracker \<Rightarrow> tracker" where
  "increment_frame tr = tr\<lparr>frame_count := frame_count tr + 1\<rparr>"

text \<open>
  The camera loop calls \<open>update_detection\<close> once per processed frame and identity, the frame
  counter having advanced in between: a run of observations, each with the frame number at
  which it is made.
\<close>

fun observe :: "tracker \<Rightarrow> string \<Rightarrow> (int \<times> bool) list \<Rightarrow> tracker" where
  "observe tr user_id [] = tr"
| "observe tr user_id ((frame, is_detected) # rest) =
     observe (fst (update_detection (tr\<lparr>frame_count := frame\<rparr>) user_id is_detected)) user_id rest"

text \<open>
  The frame at which an identity was last seen in a run of observations that starts with
  a last sighting at frame \<open>seen\<close>.
\<close>

fun last_sighting :: "int \<Rightarrow> (int \<times> bool) list \<Rightarrow> int" where
  "last_sighting seen [] = seen"
| "last_sighting seen ((frame, is_detected) # rest) =
     last_sighting (if is_detected then frame else seen) rest"

section \<open>Liveness scorer (liveness_detector.py)\<close>

text \<open>
  An image is its first two dimensions and its pixels; \<open>a[r0:r1, c0:c1]\<close> follows numpy's
  slicing (a negative bound counts from the end, every bound is clipped to the axis).
\<close>

record 'p ndarray =
  shape0 :: nat
  shape1 :: nat
  pixel :: "nat \<Rightarrow> nat \<Rightarrow> 'p"

definition slice_bound :: "nat \<Rightarrow> int \<Rightarrow> nat" where
  "slice_bound n i = (if i < 0 then nat (max 0 (int n + i)) else min n (nat i))"

definition crop :: "'p ndarray \<Rightarrow> int \<Rightarrow> int \<Rightarrow> int \<Rightarrow> int \<Rightarrow> 'p ndarray" where
  "crop a r0 r1 c0 c1 =
     (let i0 = slice_bound (shape0 a) r0; i1 = slice_bound (shape0 a) r1;
          j0 = slice_bound (shape1 a) c0; j1 = slice_bound (shape1 a) c1
      in \<lparr>shape0 = i1 - i0, shape1 = j1 - j0, pixel = (\<lambda>i j. pixel a (i0 + i) (j0 + j))\<rparr>)"

text \<open>\<open>.size\<close> of a three-channel image, and of its grayscale conversion.\<close>

definition bgr_size :: "'p ndarray \<Rightarrow> nat" where
  "bgr_size a = shape0 a * shape1 a * 3"

definition gray_size :: "'p ndarray \<Rightarrow> nat" where
  "gray_size a = shape0 a * shape1 a"

text \<open>
  The image operators of OpenCV and numpy that the extractors call are parameters; each
  may raise, which is \<open>None\<close>, and returns a finite double otherwise.
\<close>

record 'p cv =
  laplacian_var :: "'p ndarray \<Rightarrow> real option"
  hue_std :: "'p ndarray \<Rightarrow> real option"
  saturation_std :: "'p ndarray \<Rightarrow> real option"
  high_freq_mean :: "'p ndarray \<Rightarrow> real option"
  lab_mean_b :: "'p ndarray \<Rightarrow> real option"
  lab_std_l :: "'p ndarray \<Rightarrow> real option"
  canny_edge_count :: "'p ndarray \<Rightarrow> nat option"
  bright_spots :: "'p ndarray \<Rightarrow> nat option"

definition calculate_texture_score :: "'p cv \<Rightarrow> 'p ndarray \<Rightarrow> real" where
  "calculate_texture_score cv face_region =
     (if bgr_size face_region = 0 then 0
      else case laplacian_var cv face_region of Some variance \<Rightarrow> variance | None \<Rightarrow> 0)"

definition calculate_color_diversity :: "float_ops \<Rightarrow> 'p cv \<Rightarrow> 'p ndarray \<Rightarrow> real" where
  "calculate_color_diversity fl cv face_region =
     (if bgr_size face_region = 0 then 0
      else case (hue_std cv face_region, saturation_std cv face_region) of
             (Some h_std, Some s_std) \<Rightarrow> fl_div fl (fl_add fl h_std s_std) 2
           | _ \<Rightarrow> 0)"

definition calculate_frequency_score :: "'p cv \<Rightarrow> 'p ndarray \<Rightarrow> real" where
  "calculate_frequency_score cv face_region =
     (if bgr_size face_region = 0 then 0
      else case high_freq_mean cv face_region of Some score \<Rightarrow> score | None \<Rightarrow> 0)"

definition detect_mobile_screen :: "float_ops \<Rightarrow> 'p cv \<Rightarrow> 'p ndarray \<Rightarrow> bool" where
  "detect_mobile_screen fl cv face_region =
     (if bgr_size face_region = 0 then False
      else case (lab_mean_b cv face_region, lab_std_l cv face_region,
                 canny_edge_count cv face_region) of
             (Some mean_b, Some std_l, Some edges) \<Rightarrow>
               (let edge_density = fl_div fl (real edges) (real (gray_size face_region))
                in mean_b > 130 \<or> std_l < 20 \<or> edge_density > fl_lit fl 0.25)
           | _ \<Rightarrow> False)"

definition calculate_reflection_score :: "float_ops \<Rightarrow> 'p cv \<Rightarrow> 'p ndarray \<Rightarrow> real" where
  "calculate_reflection_score fl cv face_region =
     (case bright_spots cv face_region of
        Some spots \<Rightarrow>
          (let glare_ratio = fl_div fl (real spots) (real (gray_size face_region))
           in fl_sub fl 1 (fl_mul fl glare_ratio 10))
      | None \<Rightarrow> fl_lit fl 0.5)"

record liveness_config =
  texture_threshold :: real
  color_diversity_threshold :: real
  liveness_threshold :: real

datatype extractor = Texture | ColorDiversity | Frequency | MobileScreen | Reflection

text \<open>
  \<open>detect_liveness\<close> returns the verdict and the score; beside them the model returns the
  extractors it has called, in order. \<open>face_location\<close> is \<open>(top, right, bottom, left)\<close>.
  Every extractor absorbs the exceptions of the operators it calls, and no operation on
  finite doubles that remains (the divisors are non-zero constants) raises, so the outer
  \<open>except Exception\<close> has no case here.
\<close>

definition detect_liveness ::
  "float_ops \<Rightarrow> liveness_config \<Rightarrow> 'p cv \<Rightarrow> 'p ndarray \<Rightarrow> int \<times> int \<times> int \<times> int
     \<Rightarrow> (bool \<times> real) \<times> extractor list" where
  "detect_liveness fl cfg cv frame face_location =
     (case face_location of (face_top, face_right, face_bottom, face_left) \<Rightarrow>
        let h = int (shape0 frame); w = int (shape1 frame);
            face_top = max 0 face_top; face_left = max 0 face_left;
            face_bottom = min h face_bottom; face_right = min w face_right
        in if face_bottom \<le> face_top \<or> face_right \<le> face_left then ((False, 0), [])
           else
             let face_region = crop frame face_top face_bottom face_left face_right
             in if shape0 face_region < 80 \<or> shape1 face_region < 80 then ((False, 0), [])
                else
                  let texture_score = calculate_texture_score cv face_region;
                      texture_confidence = min (fl_div fl texture_score 50) 1;
                      color_diversity = calculate_color_diversity fl cv face_region;
                      color_confidence = min (fl_div fl color_diversity 30) 1;
                      freq_score = calculate_frequency_score cv face_region;
                      freq_confidence = min (fl_div fl freq_score 1500) 1;
                      is_screen = detect_mobile_screen fl cv face_region;
                      screen_confidence = (if is_screen then 0 else 1);
                      reflection_score = calculate_reflection_score fl cv face_region;
                      liveness_score =
                        fl_add fl
                          (fl_add fl
                             (fl_add fl
                                (fl_add fl (fl_mul fl texture_confidence (fl_lit fl 0.35))
                                           (fl_mul fl color_confidence (fl_lit fl 0.25)))
                                (fl_mul fl freq_confidence (fl_lit fl 0.20)))
                             (fl_mul fl screen_confidence (fl_lit fl 0.15)))
                          (fl_mul fl reflection_score (fl_lit fl 0.05));
                      liveness_score =
                        (if is_screen \<or> (texture_score < 20 \<and> color_diversity < 12)
                         then fl_mul fl liveness_score (fl_lit fl 0.5) else liveness_score);
                      is_live = (liveness_score \<ge> liveness_threshold cfg)
                  in ((is_live, fl_round fl 3 liveness_score),
                      [Texture, ColorDiversity, Frequency, MobileScreen, Reflection]))"

text \<open>
  The clamped region of a bounding box in a frame, and the fused score before the penalty
  as the specification words it: \<open>0.35 texture_conf + 0.25 color_conf + 0.20 freq_conf +
  0.15 screen_conf + 0.05 reflection_conf\<close>, with texture, colour and frequency divided by
  50, 30 and 1500 and capped at 1, screen 0 if flagged else 1, reflection as it is; the
  sum is taken from left to right in the arithmetic of the doubles.
\<close>

definition clamped_region :: "'p ndarray \<Rightarrow> int \<times> int \<times> int \<times> int \<Rightarrow> 'p ndarray" where
  "clamped_region frame face_location =
     (case face_location of (face_top, face_right, face_bottom, face_left) \<Rightarrow>
        crop frame (max 0 face_top) (min (int (shape0 frame)) face_bottom)
                   (max 0 face_left) (min (int (shape1 frame)) face_right))"

definition spec_fused :: "float_ops \<Rightarrow> 'p cv \<Rightarrow> 'p ndarray \<Rightarrow> real" where
  "spec_fused fl cv region =
     fl_add fl
       (fl_add fl
          (fl_add fl
             (fl_add fl
                (fl_mul fl (min (fl_div fl (calculate_texture_score cv region) 50) 1)
                   (fl_lit fl 0.35))
                (fl_mul fl (min (fl_div fl (calculate_color_diversity fl cv region) 30) 1)
                   (fl_lit fl 0.25)))
             (fl_mul fl (min (fl_div fl (calculate_frequency_score cv region) 1500) 1)
                (fl_lit fl 0.20)))
          (fl_mul fl (if detect_mobile_screen fl cv region then 0 else 1) (fl_lit fl 0.15)))
       (fl_mul fl (calculate_reflection_score fl cv region) (fl_lit fl 0.05))"

definition spec_penalty :: "float_ops \<Rightarrow> 'p cv \<Rightarrow> 'p ndarray \<Rightarrow> bool" where
  "spec_penalty fl cv region \<longleftrightarrow>
     detect_mobile_screen fl cv region \<or>
     (calculate_texture_score cv region < 20 \<and> calculate_color_diversity fl cv region < 12)"

text \<open>The boxes that the scorer does not reject: at least 80 by 80 after clamping.\<close>

definition accepted_box :: "'p ndarray \<Rightarrow> int \<times> int \<times> int \<times> int \<Rightarrow> bool" where
  "accepted_box frame face_location \<longleftrightarrow>
     (case face_location of (face_top, face_right, face_bottom, face_left) \<Rightarrow>
        80 \<le> min (int (shape0 frame)) face_bottom - max 0 face_top \<and>
        80 \<le> min (int (shape1 frame)) face_right - max 0 face_left)"

section \<open>Persistent store (database_manager.py)\<close>

text \<open>
  The two tables that the claims concern, with the columns of their \<open>CREATE TABLE\<close>
  statements; a column that may hold \<open>NULL\<close> is an option. The model follows SQLite on
  the schema as it is written: \<open>users.user_id\<close> is the primary key and
  \<open>users.registration_number\<close> is \<open>UNIQUE\<close> (any number of \<open>NULL\<close>s), the attendance
  table has the key \<open>id\<close> only.

  Every method opens its own connection and wraps its statements in \<open>try\<close>. A writing
  method commits once, after its last statement; when a statement raises, the method
  returns from its \<open>except\<close> branch without a commit, the connection goes out of scope
  and SQLite rolls the open transaction back. A fault names the step that raises and the
  text of the exception.
\<close>

record user_row =
  u_user_id :: string
  u_name :: string
  u_registration_number :: "string option"
  u_email :: "string option"
  u_department :: "string option"
  u_phone :: "string option"
  u_registration_date :: string
  u_face_encoding_hash :: "string option"
  u_total_attendance :: int
  u_last_attendance :: "string option"
  u_is_active :: int
  u_is_admin :: int
  u_created_by :: "string option"
  u_notes :: "string option"

record attendance_row =
  a_id :: int
  a_user_id :: string
  a_name :: string
  a_registration_number :: string
  a_timestamp :: string
  a_date :: string
  a_time :: string
  a_liveness_score :: real
  a_emotion :: string
  a_engagement_score :: real
  a_confidence :: real
  a_blockchain_hash :: "string option"
  a_face_encoding_hash :: string
  a_location :: string
  a_device_info :: "string option"

record database =
  users :: "user_row list"
  attendance :: "attendance_row list"
  attendance_seq :: int

text \<open>A reading of \<open>datetime.now()\<close>: \<open>%Y-%m-%d\<close> and \<open>%H:%M:%S\<close>.\<close>

record clock =
  c_date :: string
  c_time :: string

datatype sql_step = Connect | Select | Insert | Update | Commit

definition raises :: "(sql_step \<times> string) option \<Rightarrow> sql_step \<Rightarrow> string option" where
  "raises fault step =
     (case fault of
        None \<Rightarrow> None
      | Some (failing, e) \<Rightarrow> if failing = step then Some e else None)"

definition truthy :: "string option \<Rightarrow> bool" where
  "truthy v = (case v of None \<Rightarrow> False | Some x \<Rightarrow> x \<noteq> [])"

text \<open>\<open>INSERT OR REPLACE INTO users\<close>: the rows that conflict on a key leave the table.\<close>

definition conflicts :: "user_row \<Rightarrow> user_row \<Rightarrow> bool" where
  "conflicts new old \<longleftrightarrow>
     u_user_id old = u_user_id new \<or>
     (u_registration_number old \<noteq> None \<and> u_registration_number old = u_registration_number new)"

definition insert_or_replace_user :: "database \<Rightarrow> user_row \<Rightarrow> database" where
  "insert_or_replace_user db row =
     db\<lparr>users := filter (\<lambda>old. \<not> conflicts row old) (users db) @ [row]\<rparr>"

definition user_record ::
  "(string \<Rightarrow> string) \<Rightarrow> clock \<Rightarrow> string \<Rightarrow> string \<Rightarrow> string \<Rightarrow> string option \<Rightarrow> string option
     \<Rightarrow> string option \<Rightarrow> string option \<Rightarrow> string option \<Rightarrow> user_row" where
  "user_record sha256_hex now user_id name face_encoding registration_number email department
       phone created_by =
     \<lparr>u_user_id = user_id, u_name = name, u_registration_number = registration_number,
      u_email = email, u_department = department, u_phone = phone,
      u_registration_date = c_date now @ '' '' @ c_time now,
      u_face_encoding_hash = Some (take 16 (sha256_hex face_encoding)), u_total_attendance = 0,
      u_last_attendance = None, u_is_active = 1, u_is_admin = 0,
      u_created_by = created_by, u_notes = None\<rparr>"

text \<open>
  \<open>add_user\<close>: the look-up of the registration number (only for a non-empty number),
  the insert, the commit; every exception ends in \<open>return False\<close>.
\<close>

definition add_user ::
  "(string \<Rightarrow> string) \<Rightarrow> clock \<Rightarrow> string \<Rightarrow> string \<Rightarrow> string \<Rightarrow> string option \<Rightarrow> string option
     \<Rightarrow> string option \<Rightarrow> string option \<Rightarrow> string option \<Rightarrow> (sql_step \<times> string) option
     \<Rightarrow> database \<Rightarrow> database \<times> bool" where
  "add_user sha256_hex now user_id name face_encoding registration_number email department
       phone created_by fault db =
     (if raises fault Connect \<noteq> None then (db, False)
      else if truthy registration_number \<and> raises fault Select \<noteq> None then (db, False)
      else if truthy registration_number \<and>
              filter (\<lambda>r. u_registration_number r = registration_number) (users db) \<noteq> []
      then (db, False)
      else if raises fault Insert \<noteq> None then (db, False)
      else
        let pending = insert_or_replace_user db
                        (user_record sha256_hex now user_id name face_encoding
                           registration_number email department phone created_by)
        in if raises fault Commit \<noteq> None then (db, False) else (pending, True))"

text \<open>
  \<open>mark_attendance\<close>: the \<open>SELECT\<close> that looks for a row of the day, the \<open>INSERT\<close> of
  the row, the \<open>UPDATE\<close> of the user's statistics, and one commit for both. An exception
  ends in \<open>return False, str(e)\<close>.
\<close>

definition already_marked :: "database \<Rightarrow> string \<Rightarrow> string \<Rightarrow> bool" where
  "already_marked db user_id date \<longleftrightarrow>
     filter (\<lambda>r. a_user_id r = user_id \<and> a_date r = date) (attendance db) \<noteq> []"

definition insert_row :: "database \<Rightarrow> attendance_row \<Rightarrow> database" where
  "insert_row db row =
     db\<lparr>attendance := attendance db @ [row\<lparr>a_id := attendance_seq db + 1\<rparr>],
        attendance_seq := attendance_seq db + 1\<rparr>"

definition update_statistics :: "database \<Rightarrow> string \<Rightarrow> string \<Rightarrow> database" where
  "update_statistics db stamp user_id =
     db\<lparr>users := map (\<lambda>r. if u_user_id r = user_id
                            then r\<lparr>u_total_attendance := u_total_attendance r + 1,
                                   u_last_attendance := Some stamp\<rparr>
                            else r) (users db)\<rparr>"

text \<open>The committed write of \<open>mark_attendance\<close>: the row and the statistics.\<close>

definition insert_attendance :: "database \<Rightarrow> attendance_row \<Rightarrow> database" where
  "insert_attendance db row =
     update_statistics (insert_row db row) (a_timestamp row) (a_user_id row)"

definition attendance_record ::
  "(string \<Rightarrow> string) \<Rightarrow> clock \<Rightarrow> string \<Rightarrow> string \<Rightarrow> string \<Rightarrow> real \<Rightarrow> string \<Rightarrow> real
     \<Rightarrow> string option \<Rightarrow> string \<Rightarrow> real \<Rightarrow> string \<Rightarrow> attendance_row" where
  "attendance_record sha256_hex now user_id name registration_number liveness_score emotion
       engagement_score blockchain_hash face_encoding confidence location =
     \<lparr>a_id = 0, a_user_id = user_id, a_name = name,
      a_registration_number = registration_number,
      a_timestamp = c_date now @ '' '' @ c_time now, a_date = c_date now, a_time = c_time now,
      a_liveness_score = liveness_score, a_emotion = emotion,
      a_engagement_score = engagement_score, a_confidence = confidence,
      a_blockchain_hash = blockchain_hash,
      a_face_encoding_hash = take 16 (sha256_hex face_encoding),
      a_location = location, a_device_info = None\<rparr>"

definition mark_attendance ::
  "(string \<Rightarrow> string) \<Rightarrow> clock \<Rightarrow> string \<Rightarrow> string \<Rightarrow> string \<Rightarrow> real \<Rightarrow> string \<Rightarrow> real
     \<Rightarrow> string option \<Rightarrow> string \<Rightarrow> real \<Rightarrow> string \<Rightarrow> (sql_step \<times> string) option
     \<Rightarrow> database \<Rightarrow> database \<times> bool \<times> string" where
  "mark_attendance sha256_hex now user_id name registration_number liveness_score emotion
       engagement_score blockchain_hash face_encoding confidence location fault db =
     (let row = attendance_record sha256_hex now user_id name registration_number
                  liveness_score emotion engagement_score blockchain_hash face_encoding
                  confidence location
      in case raises fault Connect of Some e \<Rightarrow> (db, False, e) | None \<Rightarrow>
         case raises fault Select of Some e \<Rightarrow> (db, False, e) | None \<Rightarrow>
         if already_marked db user_id (c_date now) then (db, False, ''Already marked today'')
         else
           case raises fault Insert of Some e \<Rightarrow> (db, False, e) | None \<Rightarrow>
           let pending = insert_row db row
           in case raises fault Update of Some e \<Rightarrow> (db, False, e) | None \<Rightarrow>
              let pending = update_statistics pending (a_timestamp row) user_id
              in case raises fault Commit of Some e \<Rightarrow> (db, False, e) | None \<Rightarrow>
                 (pending, True, ''Success''))"

text \<open>
  The two reading methods; \<open>raised\<close> says that the call ends in its \<open>except\<close> branch.
  \<open>ORDER BY timestamp DESC\<close> keeps rows of equal timestamp in the order of their insertion.
\<close>

definition get_attendance_records ::
  "database \<Rightarrow> string option \<Rightarrow> string option \<Rightarrow> nat \<Rightarrow> bool \<Rightarrow> attendance_row list" where
  "get_attendance_records db date user_id limit raised =
     (if raised then []
      else
        let records =
              filter (\<lambda>r. (if truthy date then Some (a_date r) = date else True) \<and>
                           (if truthy user_id then Some (a_user_id r) = user_id else True))
                (attendance db)
        in take limit (rev (sort_key a_timestamp (rev records))))"

definition get_user_info :: "database \<Rightarrow> string \<Rightarrow> bool \<Rightarrow> user_row option" where
  "get_user_info db user_id raised =
     (if raised then None else find (\<lambda>r. u_user_id r = user_id) (users db))"

text \<open>What the claims count: the rows of an identity on a date.\<close>

definition marks_for :: "database \<Rightarrow> string \<Rightarrow> string \<Rightarrow> nat" where
  "marks_for db user_id date =
     length (filter (\<lambda>r. a_user_id r = user_id \<and> a_date r = date) (attendance db))"

definition users_with_regno :: "database \<Rightarrow> string \<Rightarrow> nat" where
  "users_with_regno db regno =
     length (filter (\<lambda>r. u_registration_number r = Some regno) (users db))"

section \<open>Attendance marking (gui_application.py, start_attendance)\<close>

text \<open>
  The payloads of the ledger: the genesis dictionary, the \<open>attendance_data\<close> dictionary of
  a mark, and any other dictionary of a loaded chain file.
\<close>

record attendance_data =
  ad_type :: string
  ad_user_id :: string
  ad_name :: string
  ad_registration_number :: string
  ad_timestamp :: string
  ad_liveness_score :: real
  ad_confidence :: real
  ad_emotion :: string
  ad_engagement :: real

datatype payload = GenesisData string | AttendanceData attendance_data | OtherData string

record face_data =
  fd_name :: string
  fd_regno :: string
  fd_bbox :: "int \<times> int \<times> int \<times> int"
  fd_confidence :: real
  fd_is_live :: bool
  fd_liveness_score :: real
  fd_is_stable :: bool
  fd_user_id :: string
  fd_face_encoding :: string
  fd_already_marked_in_db :: bool
  fd_just_marked :: bool
  fd_mark_time :: "int option"

record app_config =
  enable_antispoofing :: bool
  enable_blockchain :: bool
  enable_emotion :: bool

record session =
  tracker :: tracker
  db :: database
  blockchain :: "payload blockchain"
  emotion_history :: "string list"
  history_size :: nat
  detected_faces :: "string \<rightharpoonup> face_data"

text \<open>
  One recognised face of one processed frame. What the recogniser, the liveness scorer,
  the emotion classifier and the clock return for it are fields of the event:
  \<open>ev_liveness\<close> is the result of \<open>detect_liveness\<close>, \<open>ev_emotion\<close> the outcome of
  \<open>detect_emotion_simple\<close> on the face region, \<open>ev_today\<close> the date read before the
  database lookup, \<open>ev_isoformat\<close> the timestamp of \<open>attendance_data\<close>, \<open>ev_block_now\<close>
  the timestamp of the new block and \<open>ev_mark_now\<close> the clock inside \<open>mark_attendance\<close>.
  \<open>ev_faults\<close> says which of the four calls into the store and the ledger end in their
  \<open>except\<close> branch: \<open>get_user_info\<close>, \<open>get_attendance_records\<close>, \<open>add_block\<close> and
  \<open>mark_attendance\<close>.
\<close>

datatype emotion_outcome = RegionEmpty | Classified string | Failed

record call_faults =
  f_user_info :: bool
  f_lookup :: bool
  f_add_block :: bool
  f_mark :: "(sql_step \<times> string) option"

record match_event =
  ev_name :: string
  ev_user_id :: string
  ev_confidence :: real
  ev_bbox :: "int \<times> int \<times> int \<times> int"
  ev_face_encoding :: string
  ev_today :: string
  ev_liveness :: "bool \<times> real"
  ev_emotion :: emotion_outcome
  ev_isoformat :: string
  ev_block_now :: string
  ev_mark_now :: clock
  ev_faults :: call_faults

definition lookup_regno :: "database \<Rightarrow> string \<Rightarrow> bool \<Rightarrow> string" where
  "lookup_regno d user_id raised =
     (case get_user_info d user_id raised of
        None \<Rightarrow> ''N/A''
      | Some user_info \<Rightarrow> if truthy (u_registration_number user_info)
                          then the (u_registration_number user_info) else ''N/A'')"

text \<open>The lookup for a mark of today, before anything else is done for the face.\<close>

definition check_already_marked :: "match_event \<Rightarrow> session \<Rightarrow> session \<times> bool" where
  "check_already_marked ev s =
     (let today = ev_today ev;
          existing_records =
            get_attendance_records (db s) (Some today) (Some (ev_user_id ev)) 100
              (f_lookup (ev_faults ev))
      in if existing_records \<noteq> []
         then (s\<lparr>tracker := (tracker s)
                   \<lparr>recognized_today := insert (ev_user_id ev) (recognized_today (tracker s))\<rparr>\<rparr>,
               True)
         else (s, False))"

definition anti_spoofing ::
  "app_config \<Rightarrow> float_ops \<Rightarrow> match_event \<Rightarrow> session \<Rightarrow> session \<times> bool \<times> real" where
  "anti_spoofing cfg fl ev s =
     (if enable_antispoofing cfg then
        (case ev_liveness ev of (is_live_raw, liveness_raw) \<Rightarrow>
           (case update_liveness_smooth fl (tracker s) (ev_user_id ev) liveness_raw of
              (tr, is_live, liveness_score) \<Rightarrow> (s\<lparr>tracker := tr\<rparr>, is_live, liveness_score)))
      else (s, True, 1))"

definition emotion_step :: "app_config \<Rightarrow> match_event \<Rightarrow> session \<Rightarrow> session \<times> string \<times> real" where
  "emotion_step cfg ev s =
     (if enable_emotion cfg then
        (case ev_emotion ev of
           RegionEmpty \<Rightarrow> (s, ''Neutral'', 50)
         | Classified emotion \<Rightarrow>
             (let s1 = s\<lparr>emotion_history :=
                          deque_append (history_size s) (emotion_history s) emotion\<rparr>
              in (s1, emotion, calculate_engagement_score (emotion_history s1)))
         | Failed \<Rightarrow> (s, ''Neutral'', calculate_engagement_score (emotion_history s)))
      else (s, ''Neutral'', 50))"

text \<open>
  The body of \<open>if is_stable and is_live and user_id not in tracker.recognized_today\<close>:
  emotion, ledger block, database write, and the bookkeeping of a successful write. It
  returns the result of \<open>mark_attendance\<close> beside the new state; \<open>None\<close> when mining does
  not return.
\<close>

definition mark_branch ::
  "app_config \<Rightarrow> float_ops \<Rightarrow> (string \<Rightarrow> string) \<Rightarrow> (payload \<Rightarrow> string) \<Rightarrow> match_event
     \<Rightarrow> string \<Rightarrow> real \<Rightarrow> session \<Rightarrow> (session \<times> bool \<times> string) option" where
  "mark_branch cfg fl sha256_hex json_dumps ev regno liveness_score s =
     (case emotion_step cfg ev s of (s, emotion, engagement) \<Rightarrow>
        let attendance_data =
              \<lparr>ad_type = ''attendance'', ad_user_id = ev_user_id ev, ad_name = ev_name ev,
               ad_registration_number = regno, ad_timestamp = ev_isoformat ev,
               ad_liveness_score = liveness_score, ad_confidence = ev_confidence ev,
               ad_emotion = emotion, ad_engagement = engagement\<rparr>
        in case (if enable_blockchain cfg
                 then add_block sha256_hex json_dumps (ev_block_now ev)
                        (AttendanceData attendance_data) (f_add_block (ev_faults ev))
                        (blockchain s)
                 else Some (blockchain s, Some ''N/A'')) of
             None \<Rightarrow> None
           | Some (bc, blockchain_hash) \<Rightarrow>
               (case mark_attendance sha256_hex (ev_mark_now ev) (ev_user_id ev) (ev_name ev)
                       regno liveness_score emotion engagement blockchain_hash
                       (ev_face_encoding ev) (fl_div fl (ev_confidence ev) 100) ''Main Campus''
                       (f_mark (ev_faults ev)) (db s) of
                  (d, success, msg) \<Rightarrow>
                    let s = s\<lparr>blockchain := bc, db := d\<rparr>
                    in Some
                         (if success then
                            s\<lparr>tracker := (tracker s)
                                 \<lparr>recognized_today :=
                                    insert (ev_user_id ev) (recognized_today (tracker s))\<rparr>,
                              detected_faces :=
                                (detected_faces s)(ev_user_id ev :=
                                   map_option
                                     (\<lambda>f. f\<lparr>fd_just_marked := True,
                                             fd_mark_time := Some (frame_count (tracker s))\<rparr>)
                                     (detected_faces s (ev_user_id ev)))\<rparr>
                          else s,
                          success, msg)))"

text \<open>The verdicts of a face before the marking condition is tested.\<close>

definition verdicts ::
  "app_config \<Rightarrow> float_ops \<Rightarrow> match_event \<Rightarrow> session
     \<Rightarrow> session \<times> bool \<times> bool \<times> real \<times> bool" where
  "verdicts cfg fl ev s =
     (case check_already_marked ev s of (s, already_marked_in_db) \<Rightarrow>
      case anti_spoofing cfg fl ev s of (s, is_live, liveness_score) \<Rightarrow>
      case update_detection (tracker s) (ev_user_id ev) True of (tr, is_stable_now) \<Rightarrow>
        (s\<lparr>tracker := tr\<rparr>, is_stable_now, is_live, liveness_score, already_marked_in_db))"

definition process_match ::
  "app_config \<Rightarrow> float_ops \<Rightarrow> (string \<Rightarrow> string) \<Rightarrow> (payload \<Rightarrow> string) \<Rightarrow> match_event
     \<Rightarrow> session \<Rightarrow> session option" where
  "process_match cfg fl sha256_hex json_dumps ev s =
     (let regno = lookup_regno (db s) (ev_user_id ev) (f_user_info (ev_faults ev))
      in case verdicts cfg fl ev s of
           (s, is_stable_now, is_live, liveness_score, already_marked_in_db) \<Rightarrow>
             let s = s\<lparr>detected_faces := (detected_faces s)(ev_user_id ev \<mapsto>
                          \<lparr>fd_name = ev_name ev, fd_regno = regno, fd_bbox = ev_bbox ev,
                           fd_confidence = ev_confidence ev, fd_is_live = is_live,
                           fd_liveness_score = liveness_score, fd_is_stable = is_stable_now,
                           fd_user_id = ev_user_id ev, fd_face_encoding = ev_face_encoding ev,
                           fd_already_marked_in_db = already_marked_in_db,
                           fd_just_marked = False, fd_mark_time = None\<rparr>)\<rparr>
             in if is_stable_now \<and> is_live \<and> ev_user_id ev \<notin> recognized_today (tracker s)
                then map_option fst
                       (mark_branch cfg fl sha256_hex json_dumps ev regno liveness_score s)
                else Some s)"




definition is_attendance_block :: "string \<Rightarrow> string \<Rightarrow> payload block \<Rightarrow> bool" where
  "is_attendance_block user_id date b \<longleftrightarrow>
     (case data b of
        AttendanceData a \<Rightarrow> ad_user_id a = user_id \<and> take 10 (ad_timestamp a) = date
      | _ \<Rightarrow> False)"

definition ledger_blocks_for :: "payload blockchain \<Rightarrow> string \<Rightarrow> string \<Rightarrow> nat" where
  "ledger_blocks_for bc user_id date =
     length (filter (is_attendance_block user_id date) (chain bc))"

definition on_date :: "string \<Rightarrow> match_event \<Rightarrow> bool" where
  "on_date date ev \<longleftrightarrow>
     ev_today ev = date \<and> take 10 (ev_isoformat ev) = date \<and> c_date (ev_mark_now ev) = date"


definition undisturbed :: "match_event \<Rightarrow> bool" where
  "undisturbed ev \<longleftrightarrow>
     \<not> f_lookup (ev_faults ev) \<and> \<not> f_add_block (ev_faults ev) \<and> f_mark (ev_faults ev) = None"


text \<open>
  The state of an identity on a date in which the ledger and the store agree: a chain with
  its genesis block, at most one row, as many ledger blocks as rows, and a row whenever
  the identity is in the recognized-today set.
\<close>

definition marked_once :: "string \<Rightarrow> string \<Rightarrow> session \<Rightarrow> bool" where
  "marked_once user_id date s \<longleftrightarrow>
     chain (blockchain s) \<noteq> [] \<and>
     marks_for (db s) user_id date \<le> 1 \<and>
     ledger_blocks_for (blockchain s) user_id date = marks_for (db s) user_id date \<and>
     (if user_id \<in> recognized_today (tracker s) then marks_for (db s) user_id date = 1 else True)"

section \<open>Concrete instances\<close>

text \<open>
  A digest and a serialiser small enough to evaluate, for the instances below: the digest
  is its input behind \<open>00\<close> when the input ends in the digit 3 and behind \<open>ff\<close>
  otherwise, so that mining a fresh block takes three increments of the nonce.
\<close>

definition example_sha :: "string \<Rightarrow> string" where
  "example_sha s = (if s \<noteq> [] \<and> last s = CHR ''3'' then ''00'' else ''ff'') @ s"

fun example_dumps :: "payload \<Rightarrow> string" where
  "example_dumps (GenesisData created) = ''{created: '' @ created @ '', type: genesis}''"
| "example_dumps (AttendanceData a) =
     ''{timestamp: '' @ ad_timestamp a @ '', type: '' @ ad_type a @
     '', user_id: '' @ ad_user_id a @ ''}''"
| "example_dumps (OtherData other) = other"

definition example_attendance :: "string \<Rightarrow> attendance_data" where
  "example_attendance user_id =
     \<lparr>ad_type = ''attendance'', ad_user_id = user_id, ad_name = ''Asha'',
      ad_registration_number = ''R1'', ad_timestamp = ''2025-01-01T09:00:00'',
      ad_liveness_score = 0.9, ad_confidence = 91, ad_emotion = ''Neutral'',
      ad_engagement = 50\<rparr>"

definition example_genesis :: "payload block" where
  "example_genesis =
     \<lparr>index = 0, timestamp = ''t0'', data = GenesisData ''t0'', previous_hash = ''0'',
      nonce = 3, hash = ''000t0{created: t0, type: genesis}03''\<rparr>"

definition example_block1 :: "payload block" where
  "example_block1 =
     (let b = \<lparr>index = 1, timestamp = ''t1'', data = AttendanceData (example_attendance ''u1''),
               previous_hash = hash example_genesis, nonce = 3, hash = []\<rparr>
      in b\<lparr>hash := calculate_hash example_sha example_dumps b\<rparr>)"

definition example_chain :: "payload blockchain" where
  "example_chain =
     \<lparr>chain = [example_genesis, example_block1], difficulty = 2\<rparr>"

text \<open>
  A tracker that has seen one identity on five processed frames, and a frame of 480 by 640
  pixels with image operators that return fixed signals: no texture, hue and saturation
  deviation 7.5, no high frequencies, a blue mean of 140 and 4000 bright pixels, which on
  a region of 200 by 200 is a glare ratio of one tenth. The threshold of the scorer is the
  double written \<open>0.7\<close>.
\<close>

definition example_tracker :: tracker where
  "example_tracker =
     observe AttendanceTracker ''u1'' [(2, True), (4, True), (6, True), (8, True), (10, True)]"

definition example_frame :: "nat ndarray" where
  "example_frame = \<lparr>shape0 = 480, shape1 = 640, pixel = (\<lambda>i j. 0)\<rparr>"

definition example_cv :: "nat cv" where
  "example_cv =
     \<lparr>laplacian_var = (\<lambda>r. Some 0), hue_std = (\<lambda>r. Some 7.5),
      saturation_std = (\<lambda>r. Some 7.5), high_freq_mean = (\<lambda>r. Some 0),
      lab_mean_b = (\<lambda>r. Some 140), lab_std_l = (\<lambda>r. Some 30),
      canny_edge_count = (\<lambda>r. Some 0), bright_spots = (\<lambda>r. Some 4000)\<rparr>"

definition example_liveness_config :: liveness_config where
  "example_liveness_config =
     \<lparr>texture_threshold = 15, color_diversity_threshold = 10,
      liveness_threshold = to_double 0.7\<rparr>"

text \<open>
  A session in which one identity has been detected on four processed frames and is not
  yet marked, a face of that identity with the liveness reading 1, and a digest under which
  every search ends after at most one increment.
\<close>

definition prefix_sha :: "string \<Rightarrow> string" where
  "prefix_sha s = ''00'' @ s"

definition example_config :: app_config where
  "example_config = \<lparr>enable_antispoofing = True, enable_blockchain = True, enable_emotion = True\<rparr>"

definition example_session :: session where
  "example_session =
     \<lparr>tracker = (observe AttendanceTracker ''u1'' [(2, True), (4, True), (6, True), (8, True)])
                  \<lparr>frame_count := 10\<rparr>,
      db = \<lparr>users = [], attendance = [], attendance_seq = 0\<rparr>,
      blockchain = \<lparr>chain = [example_genesis], difficulty = 2\<rparr>,
      emotion_history = [], history_size = 30, detected_faces = Map.empty\<rparr>"

definition no_faults :: call_faults where
  "no_faults = \<lparr>f_user_info = False, f_lookup = False, f_add_block = False, f_mark = None\<rparr>"

definition example_event :: match_event where
  "example_event =
     \<lparr>ev_name = ''Asha'', ev_user_id = ''u1'', ev_confidence = 91,
      ev_bbox = (100, 300, 300, 100), ev_face_encoding = ''e1'', ev_today = ''2025-01-01'',
      ev_liveness = (True, 1), ev_emotion = Classified ''Happy'',
      ev_isoformat = ''2025-01-01T09:00:00'', ev_block_now = ''2025-01-01 09:00:00'',
      ev_mark_now = \<lparr>c_date = ''2025-01-01'', c_time = ''09:00:00''\<rparr>,
      ev_faults = no_faults\<rparr>"


text \<open>
  The row that \<open>mark_attendance\<close> builds for this face, and the session after another
  writer has stored such a row behind the back of the tracker.
\<close>

definition example_row :: attendance_row where
  "example_row =
     attendance_record prefix_sha (ev_mark_now example_event) ''u1'' ''Asha'' ''N/A'' 1
       ''Happy'' 100 None ''e1'' (to_double (91 / 100)) ''Main Campus''"

definition example_conflict :: session where
  "example_conflict = example_session\<lparr>db := insert_attendance (db example_session) example_row\<rparr>"

section \<open>Properties of the ledger\<close>

lemma calculate_hash_ignores_hash [simp]:
  "calculate_hash H J (b\<lparr>hash := h\<rparr>) = calculate_hash H J b"
  by (simp add: calculate_hash_def block_string_def)

lemma mine_block_post:
  assumes ret: "mine_block H J k b = Some b'"
  shows "py_prefix k (hash b') = target k \<and> index b' = index b \<and> timestamp b' = timestamp b \<and>
         data b' = data b \<and> previous_hash b' = previous_hash b \<and> nonce b \<le> nonce b' \<and>
         (hash b = calculate_hash H J b \<longrightarrow> hash b' = calculate_hash H J b')"
proof (rule mine_block.raw_induct
    [where P = "\<lambda>H J k b b'. py_prefix k (hash b') = target k \<and> index b' = index b \<and>
         timestamp b' = timestamp b \<and> data b' = data b \<and> previous_hash b' = previous_hash b \<and>
         nonce b \<le> nonce b' \<and> (hash b = calculate_hash H J b \<longrightarrow> hash b' = calculate_hash H J b')",
     OF _ ret], goal_cases)
  case (1 mine H J k b b')
  show ?case
  proof (cases "py_prefix k (hash b) \<noteq> target k")
    case True
    with 1(2) have eq: "mine H J k (b\<lparr>nonce := nonce b + 1,
        hash := calculate_hash H J (b\<lparr>nonce := nonce b + 1\<rparr>)\<rparr>) = Some b'"
      by (simp add: Let_def)
    have "nonce b \<le> nonce b + 1" by simp
    with 1(1)[OF eq] show ?thesis by auto
  next
    case False
    with 1(2) show ?thesis by simp
  qed
qed

lemma Block_fields [simp]:
  "index (Block H J i ts d ph) = i" "timestamp (Block H J i ts d ph) = ts"
  "data (Block H J i ts d ph) = d" "previous_hash (Block H J i ts d ph) = ph"
  "nonce (Block H J i ts d ph) = 0"
  "hash (Block H J i ts d ph) = calculate_hash H J (Block H J i ts d ph)"
  by (simp_all add: Block_def Let_def calculate_hash_def block_string_def)

text \<open>
  Claim C6. When mining at difficulty 2 returns for a freshly constructed block (nonce 0,
  incremented by the search), the stored hash starts with \<open>00\<close>, it is the digest of
  index, timestamp, serialised payload, previous hash and the found nonce in this order, and
  \<open>calculate_hash\<close> on the mined block gives the stored hash again. The other fields are
  those of the constructed block.
\<close>

theorem mine_block_postcondition:
  assumes "mine_block sha256_hex json_dumps 2 (Block sha256_hex json_dumps i ts d ph) = Some b"
  shows "take 2 (hash b) = ''00'' \<and>
         hash b = sha256_hex (str_int i @ ts @ json_dumps d @ ph @ str_int (nonce b)) \<and>
         calculate_hash sha256_hex json_dumps b = hash b \<and>
         index b = i \<and> timestamp b = ts \<and> data b = d \<and> previous_hash b = ph \<and> 0 \<le> nonce b"
proof -
  from mine_block_post[OF assms]
  have p: "py_prefix 2 (hash b) = target 2" and f: "index b = i" "timestamp b = ts" "data b = d"
    "previous_hash b = ph" and n: "0 \<le> nonce b" and h: "hash b = calculate_hash sha256_hex json_dumps b"
    by auto
  from p have "take 2 (hash b) = ''00''"
    by (simp add: py_prefix_def target_def numeral_2_eq_2)
  moreover from h f have "hash b = sha256_hex (str_int i @ ts @ json_dumps d @ ph @ str_int (nonce b))"
    by (simp add: calculate_hash_def block_string_def)
  ultimately show ?thesis using f n h by simp
qed

text \<open>
  An instance: under the example digest the search for the genesis block ends at nonce 3.
\<close>

theorem mine_block_postcondition_witness:
  "mine_block example_sha example_dumps 2
     (Block example_sha example_dumps 0 ''t0'' (GenesisData ''t0'') ''0'') = Some example_genesis \<and>
   take 2 (hash example_genesis) = ''00'' \<and>
   calculate_hash example_sha example_dumps example_genesis = hash example_genesis \<and>
   nonce example_genesis = 3"
proof -
  have m: "mine_block example_sha example_dumps 2
     (Block example_sha example_dumps 0 ''t0'' (GenesisData ''t0'') ''0'') = Some example_genesis"
    by code_simp
  have n: "nonce example_genesis = 3"
    by (simp add: example_genesis_def)
  from mine_block_postcondition[OF m] m n show ?thesis
    by blast
qed


lemma is_chain_valid_loop_iff:
  "is_chain_valid_loop H J c is \<longleftrightarrow>
     (\<forall>i\<in>set is. hash (c ! i) = calculate_hash H J (c ! i) \<and>
                  previous_hash (c ! i) = hash (c ! (i - 1)))"
  by (induction "is") (auto simp: Let_def)

lemma is_chain_valid_iff:
  "is_chain_valid H J bc \<longleftrightarrow>
     (\<forall>i. 1 \<le> i \<and> i < length (chain bc) \<longrightarrow>
        hash (chain bc ! i) = calculate_hash H J (chain bc ! i) \<and>
        previous_hash (chain bc ! i) = hash (chain bc ! (i - 1)))"
  by (auto simp: is_chain_valid_def is_chain_valid_loop_iff)

lemma block_string_data_update:
  "block_string J (b\<lparr>data := d'\<rparr>) = block_string J b \<longleftrightarrow> J d' = J (data b)"
  by (simp add: block_string_def)

lemma nth_data_update_fields:
  assumes "j < length xs"
  shows "hash (xs[k := (xs ! k)\<lparr>data := d\<rparr>] ! j) = hash (xs ! j)"
    and "previous_hash (xs[k := (xs ! k)\<lparr>data := d\<rparr>] ! j) = previous_hash (xs ! j)"
    and "j \<noteq> k \<Longrightarrow> xs[k := (xs ! k)\<lparr>data := d\<rparr>] ! j = xs ! j"
  using assms by (cases "j = k"; simp)+

text \<open>
  Claim C7. In a valid chain, a block at index \<open>i > 0\<close> whose payload is replaced while
  its stored hash is kept makes \<open>is_chain_valid\<close> return false, and so does a
  \<open>previous_hash\<close> that differs from the hash of block \<open>i - 1\<close>. Detecting the payload
  rests on the digest: the replacement must change the serialised payload, and the digest
  must not collide on the block strings before and after.
\<close>

theorem tamper_detection:
  assumes valid: "is_chain_valid sha256_hex json_dumps bc"
    and i: "0 < i" "i < length (chain bc)"
  shows "(json_dumps d' \<noteq> json_dumps (data (chain bc ! i)) \<and>
          inj_on sha256_hex {block_string json_dumps (chain bc ! i),
                             block_string json_dumps ((chain bc ! i)\<lparr>data := d'\<rparr>)} \<longrightarrow>
          \<not> is_chain_valid sha256_hex json_dumps
              (bc\<lparr>chain := (chain bc)[i := (chain bc ! i)\<lparr>data := d'\<rparr>]\<rparr>)) \<and>
         (p' \<noteq> hash (chain bc ! (i - 1)) \<longrightarrow>
          \<not> is_chain_valid sha256_hex json_dumps
              (bc\<lparr>chain := (chain bc)[i := (chain bc ! i)\<lparr>previous_hash := p'\<rparr>]\<rparr>))"
proof (intro conjI impI)
  let ?b = "chain bc ! i"
  let ?b' = "?b\<lparr>data := d'\<rparr>"
  assume a: "json_dumps d' \<noteq> json_dumps (data ?b) \<and>
      inj_on sha256_hex {block_string json_dumps ?b, block_string json_dumps ?b'}"
  from valid i have stored: "hash ?b = calculate_hash sha256_hex json_dumps ?b"
    by (simp add: is_chain_valid_iff)
  from a have "block_string json_dumps ?b' \<noteq> block_string json_dumps ?b"
    by (simp add: block_string_data_update)
  with a have "sha256_hex (block_string json_dumps ?b') \<noteq> sha256_hex (block_string json_dumps ?b)"
    by (auto simp: inj_on_def)
  with stored have "hash ?b' \<noteq> calculate_hash sha256_hex json_dumps ?b'"
    by (simp add: calculate_hash_def)
  with i show "\<not> is_chain_valid sha256_hex json_dumps (bc\<lparr>chain := (chain bc)[i := ?b']\<rparr>)"
    by (auto simp: is_chain_valid_iff intro!: exI[of _ i])
next
  assume "p' \<noteq> hash (chain bc ! (i - 1))"
  with i show "\<not> is_chain_valid sha256_hex json_dumps
      (bc\<lparr>chain := (chain bc)[i := (chain bc ! i)\<lparr>previous_hash := p'\<rparr>]\<rparr>)"
    by (auto simp: is_chain_valid_iff intro!: exI[of _ i])
qed

lemma example_chain_valid: "is_chain_valid example_sha example_dumps example_chain"
  by code_simp

text \<open>
  An instance: the example chain is valid, and it is invalid once the payload or the
  previous hash of its second block is replaced.
\<close>

theorem tamper_detection_witness:
  "is_chain_valid example_sha example_dumps example_chain \<and>
   \<not> is_chain_valid example_sha example_dumps
       (example_chain\<lparr>chain := (chain example_chain)
          [1 := (chain example_chain ! 1)\<lparr>data := AttendanceData (example_attendance ''u2'')\<rparr>]\<rparr>) \<and>
   \<not> is_chain_valid example_sha example_dumps
       (example_chain\<lparr>chain := (chain example_chain)
          [1 := (chain example_chain ! 1)\<lparr>previous_hash := ''00ab''\<rparr>]\<rparr>)"
proof -
  have v: "is_chain_valid example_sha example_dumps example_chain"
    by (rule example_chain_valid)
  have i: "(0::nat) < 1" "1 < length (chain example_chain)"
    by (simp_all add: example_chain_def)
  have d: "example_dumps (AttendanceData (example_attendance ''u2'')) \<noteq>
           example_dumps (data (chain example_chain ! 1))"
    by (simp add: example_chain_def example_block1_def example_attendance_def Let_def)
  have inj: "inj_on example_sha
      {block_string example_dumps (chain example_chain ! 1),
       block_string example_dumps
         ((chain example_chain ! 1)\<lparr>data := AttendanceData (example_attendance ''u2'')\<rparr>)}"
    by (simp add: example_chain_def example_block1_def example_attendance_def Let_def
        block_string_def example_sha_def)
  have p: "''00ab'' \<noteq> hash (chain example_chain ! (1 - 1))"
    by (simp add: example_chain_def example_genesis_def)
  from tamper_detection[OF v i, of "AttendanceData (example_attendance ''u2'')" "''00ab''"] d inj p v
  show ?thesis by blast
qed

text \<open>
  Claim C10. \<open>is_chain_valid\<close> looks at the blocks from index 1 on: a chain of one block
  is valid whatever it holds, and replacing the payload of the genesis block of a valid
  chain, its stored hash kept, leaves the chain valid.
\<close>

theorem genesis_not_checked:
  "(length (chain bc) = 1 \<longrightarrow> is_chain_valid sha256_hex json_dumps bc) \<and>
   (is_chain_valid sha256_hex json_dumps bc \<longrightarrow>
      is_chain_valid sha256_hex json_dumps
        (bc\<lparr>chain := (chain bc)[0 := (chain bc ! 0)\<lparr>data := d'\<rparr>]\<rparr>))"
proof (intro conjI impI)
  assume "length (chain bc) = 1"
  then show "is_chain_valid sha256_hex json_dumps bc" by (simp add: is_chain_valid_iff)
next
  assume v: "is_chain_valid sha256_hex json_dumps bc"
  let ?bc' = "bc\<lparr>chain := (chain bc)[0 := (chain bc ! 0)\<lparr>data := d'\<rparr>]\<rparr>"
  show "is_chain_valid sha256_hex json_dumps ?bc'"
    unfolding is_chain_valid_iff
  proof (intro allI impI)
    fix i
    assume "1 \<le> i \<and> i < length (chain ?bc')"
    then have i: "1 \<le> i" "i < length (chain bc)" by simp_all
    then have "i - 1 < length (chain bc)" "i \<noteq> 0" by simp_all
    with v i show "hash (chain ?bc' ! i) = calculate_hash sha256_hex json_dumps (chain ?bc' ! i) \<and>
         previous_hash (chain ?bc' ! i) = hash (chain ?bc' ! (i - 1))"
      by (simp add: nth_data_update_fields is_chain_valid_iff)
  qed
qed

text \<open>
  An instance: the example chain stays valid with a forged genesis payload, and its
  genesis block alone is a valid chain.
\<close>

theorem genesis_not_checked_witness:
  "length (chain (example_chain\<lparr>chain := [example_genesis]\<rparr>)) = 1 \<and>
   is_chain_valid example_sha example_dumps (example_chain\<lparr>chain := [example_genesis]\<rparr>) \<and>
   is_chain_valid example_sha example_dumps example_chain \<and>
   is_chain_valid example_sha example_dumps
     (example_chain\<lparr>chain := (chain example_chain)
        [0 := (chain example_chain ! 0)\<lparr>data := GenesisData ''forged''\<rparr>]\<rparr>) \<and>
   data ((chain example_chain)[0 := (chain example_chain ! 0)\<lparr>data := GenesisData ''forged''\<rparr>] ! 0)
     \<noteq> data (chain example_chain ! 0)"
proof -
  have l: "length (chain (example_chain\<lparr>chain := [example_genesis]\<rparr>)) = 1" by simp
  have v: "is_chain_valid example_sha example_dumps example_chain"
    by (rule example_chain_valid)
  have n: "data ((chain example_chain)[0 := (chain example_chain ! 0)\<lparr>data := GenesisData ''forged''\<rparr>] ! 0)
     \<noteq> data (chain example_chain ! 0)"
    by (simp add: example_chain_def example_genesis_def)
  from genesis_not_checked[of "example_chain\<lparr>chain := [example_genesis]\<rparr>" example_sha example_dumps]
    genesis_not_checked[of example_chain example_sha example_dumps "GenesisData ''forged''"] l v n
  show ?thesis by blast
qed

section \<open>Properties of the engagement score\<close>

lemma py_round_bounds:
  assumes lo: "of_int a / 10 ^ n \<le> x" and hi: "x \<le> of_int b / 10 ^ n"
  shows "of_int a / 10 ^ n \<le> py_round n x \<and> py_round n x \<le> of_int b / 10 ^ n"
proof -
  define y where "y = x * 10 ^ n"
  define f where "f = \<lfloor>y\<rfloor>"
  define z where "z = (if y - of_int f < 1 / 2 then f else if 1 / 2 < y - of_int f then f + 1
                       else if even f then f else f + 1)"
  have p: "(0::real) < 10 ^ n" by simp
  from lo p have ay: "of_int a \<le> y" unfolding y_def by (simp add: pos_divide_le_eq)
  from hi p have yb: "y \<le> of_int b" unfolding y_def by (simp add: pos_le_divide_eq)
  from ay have af: "a \<le> f" unfolding f_def by (simp add: le_floor_iff)
  have fz: "f \<le> z" unfolding z_def by simp
  have zb: "z \<le> b"
  proof (cases "y - of_int f < 1 / 2")
    case True
    then have "z = f" by (simp add: z_def)
    moreover have "f \<le> b" using yb unfolding f_def by (simp add: floor_le_iff)
    ultimately show ?thesis by simp
  next
    case False
    then have "of_int f < y" by simp
    with yb have "of_int f < (of_int b :: real)" by linarith
    then have "f < b" by simp
    moreover have "z \<le> f + 1" unfolding z_def by simp
    ultimately show ?thesis by linarith
  qed
  have r: "py_round n x = of_int z / 10 ^ n"
    by (simp add: py_round_def Let_def y_def f_def z_def)
  from af fz have "(of_int a :: real) \<le> of_int z" by simp
  moreover from zb have "(of_int z :: real) \<le> of_int b" by simp
  ultimately show ?thesis using p unfolding r by (simp add: divide_le_cancel)
qed

lemma py_round_0_100:
  assumes "0 \<le> x" "x \<le> 100"
  shows "0 \<le> py_round 2 x \<and> py_round 2 x \<le> 100"
  using py_round_bounds[of 0 2 x 10000] assms by simp

lemma code_is_spec_formula:
  assumes "window \<noteq> []"
  shows "calculate_engagement_score window = py_round 2 (spec_engagement_score window)"
  using assms
  by (simp add: calculate_engagement_score_def spec_engagement_score_def Let_def
      ENGAGED_EMOTIONS_def DISENGAGED_EMOTIONS_def algebra_simps)

lemma spec_engagement_range: "0 \<le> spec_engagement_score w \<and> spec_engagement_score w \<le> 100"
  by (simp add: spec_engagement_score_def Let_def)

text \<open>
  Claim C5, as stated, fails: the method returns the formula's value rounded to two
  decimals, which for one engaged label among three is 66.67 and not 200/3.
\<close>

theorem engagement_score_not_the_formula:
  "calculate_engagement_score [''Happy'', ''Neutral'', ''Neutral''] \<noteq>
   spec_engagement_score [''Happy'', ''Neutral'', ''Neutral'']"
  by (simp add: calculate_engagement_score_def spec_engagement_score_def Let_def
      ENGAGED_EMOTIONS_def DISENGAGED_EMOTIONS_def py_round_def)

lemma happy_happy_sad: "calculate_engagement_score [''Happy'', ''Happy'', ''Sad''] = 75"
  by (simp add: calculate_engagement_score_def Let_def
      ENGAGED_EMOTIONS_def DISENGAGED_EMOTIONS_def py_round_def)

text \<open>
  Claim C5, amended. For a non-empty window the score is the formula of the specification,
  clamped to \<open>[0, 100]\<close> and rounded to two decimals; it lies in \<open>[0, 100]\<close>, and
  for Happy, Happy, Sad it is 75.
\<close>

theorem engagement_score_rounded:
  assumes "window \<noteq> []"
  shows "calculate_engagement_score window =
           py_round 2 (spec_engagement_score window) \<and>
         0 \<le> calculate_engagement_score window \<and>
         calculate_engagement_score window \<le> 100 \<and>
         calculate_engagement_score [''Happy'', ''Happy'', ''Sad''] = 75"
  using code_is_spec_formula[OF assms] spec_engagement_range[of window]
    py_round_0_100[of "spec_engagement_score window"] happy_happy_sad
  by simp

text \<open>
  An instance: one engaged label among three gives 66.67.
\<close>

theorem engagement_score_rounded_witness:
  "[''Happy'', ''Neutral'', ''Neutral''] \<noteq> [] \<and>
   calculate_engagement_score [''Happy'', ''Neutral'', ''Neutral''] = 66.67 \<and>
   py_round 2 (spec_engagement_score [''Happy'', ''Neutral'', ''Neutral'']) = 66.67"
proof -
  have n: "[''Happy'', ''Neutral'', ''Neutral''] \<noteq> []" by simp
  have v: "calculate_engagement_score [''Happy'', ''Neutral'', ''Neutral''] = 66.67"
    by (simp add: calculate_engagement_score_def Let_def
      ENGAGED_EMOTIONS_def DISENGAGED_EMOTIONS_def py_round_def)
  from engagement_score_rounded[OF n] v show ?thesis by simp
qed

section \<open>Properties of the detection tracker\<close>

lemma update_detection_params [simp]:
  "detection_threshold (fst (update_detection tr u d)) = detection_threshold tr"
  "detection_cooldown (fst (update_detection tr u d)) = detection_cooldown tr"
  "recognized_today (fst (update_detection tr u d)) = recognized_today tr"
  "frame_count (fst (update_detection tr u d)) = frame_count tr"
  by (simp_all add: update_detection_def Let_def)

lemma update_detection_snd:
  "snd (update_detection tr u d) = is_stable (get_state (fst (update_detection tr u d)) u)"
  by (simp add: update_detection_def Let_def get_state_def)

lemma detected_state:
  "get_state (fst (update_detection tr u True)) u =
     (get_state tr u)\<lparr>consecutive_detections := consecutive_detections (get_state tr u) + 1,
        last_seen := frame_count tr,
        is_stable := (is_stable (get_state tr u) \<or>
                      detection_threshold tr \<le> consecutive_detections (get_state tr u) + 1)\<rparr>"
  by (simp add: update_detection_def Let_def get_state_def)

lemma missed_state:
  "get_state (fst (update_detection tr u False)) u =
     (if frame_count tr - last_seen (get_state tr u) > detection_cooldown tr
      then (get_state tr u)\<lparr>consecutive_detections := 0, is_stable := False\<rparr>
      else get_state tr u)"
  by (simp add: update_detection_def Let_def get_state_def)

lemma get_state_frame_count [simp]: "get_state (tr\<lparr>frame_count := f\<rparr>) u = get_state tr u"
  by (simp add: get_state_def)

lemma observe_threshold [simp]:
  "detection_threshold (observe tr u obs) = detection_threshold tr"
  by (induction tr u obs rule: observe.induct) simp_all

lemma observe_detected_count:
  "consecutive_detections (get_state (observe tr u (map (\<lambda>f. (f, True)) frames)) u) =
     consecutive_detections (get_state tr u) + int (length frames)"
  by (induction frames arbitrary: tr) (simp_all add: detected_state)

lemma observe_detected_stays:
  "is_stable (get_state tr u) \<Longrightarrow>
   is_stable (get_state (observe tr u (map (\<lambda>f. (f, True)) frames)) u)"
  by (induction frames arbitrary: tr) (simp_all add: detected_state)

lemma observe_detected_stable:
  "is_stable (get_state (observe tr u (map (\<lambda>f. (f, True)) frames)) u) \<longleftrightarrow>
     is_stable (get_state tr u) \<or>
     (frames \<noteq> [] \<and>
      detection_threshold tr \<le> consecutive_detections (get_state tr u) + int (length frames))"
proof (induction frames arbitrary: tr)
  case Nil
  show ?case by simp
next
  case (Cons f frames)
  show ?case
    by (cases "frames = []") (auto simp: Cons.IH detected_state)
qed

lemma observe_cooldown [simp]:
  "detection_cooldown (observe tr u obs) = detection_cooldown tr"
  by (induction tr u obs rule: observe.induct) simp_all

lemma observe_snoc:
  "observe tr u (obs @ [(f, d)]) =
     fst (update_detection ((observe tr u obs)\<lparr>frame_count := f\<rparr>) u d)"
  by (induction tr u obs rule: observe.induct) simp_all

lemma update_last_seen:
  "last_seen (get_state (fst (update_detection tr u d)) u) =
     (if d then frame_count tr else last_seen (get_state tr u))"
  by (cases d) (simp_all add: detected_state missed_state)

lemma observe_last_seen:
  "last_seen (get_state (observe tr u obs) u) = last_sighting (last_seen (get_state tr u)) obs"
proof (induction obs arbitrary: tr)
  case Nil
  show ?case by simp
next
  case (Cons ob obs)
  obtain f d where ob: "ob = (f, d)" by (cases ob)
  show ?case
    unfolding ob by (simp add: Cons.IH update_last_seen)
qed

lemma other_identity_state:
  assumes "v \<noteq> u"
  shows "get_state (fst (update_detection tr v d)) u = get_state tr u"
  using assms by (simp add: update_detection_def Let_def get_state_def)

lemma next_observation_stable:
  assumes "is_stable (get_state (observe tr u obs) u)"
  shows "is_stable (get_state (observe tr u (obs @ [(f, d)])) u) \<longleftrightarrow>
           d \<or> f - last_sighting (last_seen (get_state tr u)) obs \<le> detection_cooldown tr"
proof (cases d)
  case True
  with assms show ?thesis by (simp add: observe_snoc detected_state)
next
  case False
  with assms show ?thesis
    by (simp add: observe_snoc missed_state observe_last_seen not_less)
qed

text \<open>
  Claim C4. Detections of an identity, at whatever frame numbers, leave it stable exactly
  when it was stable before or its count has reached \<open>detection_threshold\<close>; hence
  \<open>detection_threshold\<close> detections in a row make it stable, and a stable identity stays
  stable through every detected frame. A detection adds one to the count and records the
  current frame as the frame last seen; a miss leaves the frame last seen as it is, and so
  does every update of another identity, which leaves the whole state of this one alone.
  After any run of observations the frame last seen is that of the last detection of the
  run, and an identity that the run leaves stable is turned unstable by the next
  observation exactly when that is a miss more than \<open>detection_cooldown\<close> frames after
  this last detection; such a miss sets the count to zero.
\<close>

theorem detection_stability:
  "(is_stable (get_state (observe tr u (map (\<lambda>f. (f, True)) frames)) u) \<longleftrightarrow>
      is_stable (get_state tr u) \<or>
      (frames \<noteq> [] \<and>
       detection_threshold tr \<le> consecutive_detections (get_state tr u) + int (length frames))) \<and>
   (0 \<le> consecutive_detections (get_state tr u) \<and> frames \<noteq> [] \<and>
      detection_threshold tr \<le> int (length frames) \<longrightarrow>
      is_stable (get_state (observe tr u (map (\<lambda>f. (f, True)) frames)) u)) \<and>
   (is_stable (get_state tr u) \<longrightarrow>
      is_stable (get_state (observe tr u (map (\<lambda>f. (f, True)) frames)) u) \<and>
      snd (update_detection tr u True)) \<and>
   (is_stable (get_state tr u) \<longrightarrow>
      (\<not> snd (update_detection tr u d) \<longleftrightarrow>
         \<not> d \<and> frame_count tr - last_seen (get_state tr u) > detection_cooldown tr)) \<and>
   (snd (update_detection tr u d) \<longleftrightarrow>
      is_stable (get_state (fst (update_detection tr u d)) u)) \<and>
   (frame_count tr - last_seen (get_state tr u) > detection_cooldown tr \<longrightarrow>
      consecutive_detections (get_state (fst (update_detection tr u False)) u) = 0 \<and>
      \<not> is_stable (get_state (fst (update_detection tr u False)) u)) \<and>
   last_seen (get_state (fst (update_detection tr u True)) u) = frame_count tr \<and>
   consecutive_detections (get_state (fst (update_detection tr u True)) u) =
     consecutive_detections (get_state tr u) + 1 \<and>
   last_seen (get_state (fst (update_detection tr u False)) u) = last_seen (get_state tr u) \<and>
   (\<not> frame_count tr - last_seen (get_state tr u) > detection_cooldown tr \<longrightarrow>
      get_state (fst (update_detection tr u False)) u = get_state tr u) \<and>
   (v \<noteq> u \<longrightarrow> get_state (fst (update_detection tr v d)) u = get_state tr u) \<and>
   last_seen (get_state (observe tr u obs) u) = last_sighting (last_seen (get_state tr u)) obs \<and>
   (is_stable (get_state (observe tr u obs) u) \<longrightarrow>
      (is_stable (get_state (observe tr u (obs @ [(f, d)])) u) \<longleftrightarrow>
         d \<or> f - last_sighting (last_seen (get_state tr u)) obs \<le> detection_cooldown tr))"
proof (intro conjI impI)
  show "is_stable (get_state (observe tr u (map (\<lambda>f. (f, True)) frames)) u) \<longleftrightarrow>
      is_stable (get_state tr u) \<or>
      (frames \<noteq> [] \<and>
       detection_threshold tr \<le> consecutive_detections (get_state tr u) + int (length frames))"
    by (rule observe_detected_stable)
next
  assume "0 \<le> consecutive_detections (get_state tr u) \<and> frames \<noteq> [] \<and>
      detection_threshold tr \<le> int (length frames)"
  then show "is_stable (get_state (observe tr u (map (\<lambda>f. (f, True)) frames)) u)"
    by (simp add: observe_detected_stable)
next
  assume "is_stable (get_state tr u)"
  then show "is_stable (get_state (observe tr u (map (\<lambda>f. (f, True)) frames)) u)"
    by (simp add: observe_detected_stable)
next
  assume "is_stable (get_state tr u)"
  then show "snd (update_detection tr u True)"
    by (simp add: update_detection_snd detected_state)
next
  assume "is_stable (get_state tr u)"
  then show "\<not> snd (update_detection tr u d) \<longleftrightarrow>
         \<not> d \<and> frame_count tr - last_seen (get_state tr u) > detection_cooldown tr"
    by (cases d) (simp_all add: update_detection_snd detected_state missed_state)
next
  show "snd (update_detection tr u d) \<longleftrightarrow>
      is_stable (get_state (fst (update_detection tr u d)) u)"
    by (simp add: update_detection_snd)
next
  assume "frame_count tr - last_seen (get_state tr u) > detection_cooldown tr"
  then show "consecutive_detections (get_state (fst (update_detection tr u False)) u) = 0"
    by (simp add: missed_state)
next
  assume "frame_count tr - last_seen (get_state tr u) > detection_cooldown tr"
  then show "\<not> is_stable (get_state (fst (update_detection tr u False)) u)"
    by (simp add: missed_state)
next
  show "last_seen (get_state (fst (update_detection tr u True)) u) = frame_count tr"
    by (simp add: detected_state)
next
  show "consecutive_detections (get_state (fst (update_detection tr u True)) u) =
     consecutive_detections (get_state tr u) + 1"
    by (simp add: detected_state)
next
  show "last_seen (get_state (fst (update_detection tr u False)) u) = last_seen (get_state tr u)"
    by (simp add: update_last_seen)
next
  assume "\<not> frame_count tr - last_seen (get_state tr u) > detection_cooldown tr"
  then show "get_state (fst (update_detection tr u False)) u = get_state tr u"
    by (simp add: missed_state)
next
  assume "v \<noteq> u"
  then show "get_state (fst (update_detection tr v d)) u = get_state tr u"
    by (rule other_identity_state)
next
  show "last_seen (get_state (observe tr u obs) u) = last_sighting (last_seen (get_state tr u)) obs"
    by (rule observe_last_seen)
next
  assume "is_stable (get_state (observe tr u obs) u)"
  then show "is_stable (get_state (observe tr u (obs @ [(f, d)])) u) \<longleftrightarrow>
         d \<or> f - last_sighting (last_seen (get_state tr u)) obs \<le> detection_cooldown tr"
    by (rule next_observation_stable)
qed

lemma example_tracker_state:
  "get_state example_tracker ''u1'' = \<lparr>consecutive_detections = 5, last_seen = 10, is_stable = True\<rparr>"
  by code_simp

lemma example_tracker_params:
  "detection_cooldown example_tracker = 30" "detection_threshold example_tracker = 5"
  by code_simp+

text \<open>
  An instance with the default parameters: five detections, the last at frame 10, make the
  identity stable; a miss at frame 40 keeps it stable, a miss at frame 41 resets it and
  its count, and a miss at frame 43 after a detection at frame 13 does not.
\<close>

theorem detection_stability_witness:
  "0 \<le> consecutive_detections (get_state AttendanceTracker ''u1'') \<and>
   [2, 4, 6, 8, 10 :: int] \<noteq> [] \<and>
   detection_threshold AttendanceTracker \<le> int (length [2, 4, 6, 8, 10 :: int]) \<and>
   is_stable (get_state example_tracker ''u1'') \<and>
   last_seen (get_state example_tracker ''u1'') = 10 \<and>
   snd (update_detection (example_tracker\<lparr>frame_count := 12\<rparr>) ''u1'' True) \<and>
   snd (update_detection (example_tracker\<lparr>frame_count := 40\<rparr>) ''u1'' False) \<and>
   frame_count (example_tracker\<lparr>frame_count := 41\<rparr>) -
     last_seen (get_state (example_tracker\<lparr>frame_count := 41\<rparr>) ''u1'') >
     detection_cooldown (example_tracker\<lparr>frame_count := 41\<rparr>) \<and>
   \<not> snd (update_detection (example_tracker\<lparr>frame_count := 41\<rparr>) ''u1'' False) \<and>
   consecutive_detections
     (get_state (fst (update_detection (example_tracker\<lparr>frame_count := 41\<rparr>) ''u1'' False)) ''u1'') = 0 \<and>
   \<not> is_stable (get_state (observe AttendanceTracker ''u1''
        ([(2, True), (4, True), (6, True), (8, True), (10, True)] @ [(41, False)])) ''u1'') \<and>
   is_stable (get_state (observe AttendanceTracker ''u1''
        ([(2, True), (4, True), (6, True), (8, True), (10, True), (13, True)] @ [(43, False)])) ''u1'')"
proof -
  have a: "0 \<le> consecutive_detections (get_state AttendanceTracker ''u1'')"
    "detection_threshold AttendanceTracker \<le> int (length [2, 4, 6, 8, 10 :: int])"
    by (simp_all add: AttendanceTracker_def get_state_def)
  have e: "example_tracker =
      observe AttendanceTracker ''u1'' (map (\<lambda>f. (f, True)) [2, 4, 6, 8, 10])"
    by (simp add: example_tracker_def)
  have s: "is_stable (get_state example_tracker ''u1'')"
    using detection_stability[where tr = AttendanceTracker and u = "''u1''"
        and frames = "[2, 4, 6, 8, 10]"] a
    unfolding e by simp
  have l: "last_seen (get_state example_tracker ''u1'') = 10"
    using detection_stability[where tr = AttendanceTracker and u = "''u1''"
        and obs = "[(2, True), (4, True), (6, True), (8, True), (10, True)]"]
    by (simp add: example_tracker_def)
  have s12: "is_stable (get_state (example_tracker\<lparr>frame_count := 12\<rparr>) ''u1'')"
    and s40: "is_stable (get_state (example_tracker\<lparr>frame_count := 40\<rparr>) ''u1'')"
    and s41: "is_stable (get_state (example_tracker\<lparr>frame_count := 41\<rparr>) ''u1'')"
    using s by simp_all
  have c40: "\<not> frame_count (example_tracker\<lparr>frame_count := 40\<rparr>) -
     last_seen (get_state (example_tracker\<lparr>frame_count := 40\<rparr>) ''u1'') >
     detection_cooldown (example_tracker\<lparr>frame_count := 40\<rparr>)"
    by (simp add: l example_tracker_params)
  have c41: "frame_count (example_tracker\<lparr>frame_count := 41\<rparr>) -
     last_seen (get_state (example_tracker\<lparr>frame_count := 41\<rparr>) ''u1'') >
     detection_cooldown (example_tracker\<lparr>frame_count := 41\<rparr>)"
    by (simp add: l example_tracker_params)
  have s5: "is_stable (get_state (observe AttendanceTracker ''u1''
      [(2, True), (4, True), (6, True), (8, True), (10, True)]) ''u1'')"
    using s by (simp add: example_tracker_def)
  have s6: "is_stable (get_state (observe AttendanceTracker ''u1''
      [(2, True), (4, True), (6, True), (8, True), (10, True), (13, True)]) ''u1'')"
    using detection_stability[where tr = AttendanceTracker and u = "''u1''"
        and frames = "[2, 4, 6, 8, 10, 13]"] a
    by simp
  have p: "detection_cooldown AttendanceTracker = 30"
    "last_seen (get_state AttendanceTracker ''u1'') = 0"
    by (simp_all add: AttendanceTracker_def get_state_def)
  have r41: "\<not> is_stable (get_state (observe AttendanceTracker ''u1''
        ([(2, True), (4, True), (6, True), (8, True), (10, True)] @ [(41, False)])) ''u1'')"
    using detection_stability[where tr = AttendanceTracker and u = "''u1''"
        and obs = "[(2, True), (4, True), (6, True), (8, True), (10, True)]"
        and f = 41 and d = False] s5
    by (simp add: p)
  have r43: "is_stable (get_state (observe AttendanceTracker ''u1''
        ([(2, True), (4, True), (6, True), (8, True), (10, True), (13, True)] @ [(43, False)])) ''u1'')"
    using detection_stability[where tr = AttendanceTracker and u = "''u1''"
        and obs = "[(2, True), (4, True), (6, True), (8, True), (10, True), (13, True)]"
        and f = 43 and d = False] s6
    by (simp add: p)
  from detection_stability[where tr = "example_tracker\<lparr>frame_count := 12\<rparr>" and u = "''u1''"
      and frames = "[]" and d = True]
    detection_stability[where tr = "example_tracker\<lparr>frame_count := 40\<rparr>" and u = "''u1''"
      and frames = "[]" and d = False]
    detection_stability[where tr = "example_tracker\<lparr>frame_count := 41\<rparr>" and u = "''u1''"
      and frames = "[]" and d = False]
    a s l s12 s40 s41 c40 c41
  have "snd (update_detection (example_tracker\<lparr>frame_count := 12\<rparr>) ''u1'' True) \<and>
   snd (update_detection (example_tracker\<lparr>frame_count := 40\<rparr>) ''u1'' False) \<and>
   \<not> snd (update_detection (example_tracker\<lparr>frame_count := 41\<rparr>) ''u1'' False) \<and>
   consecutive_detections
     (get_state (fst (update_detection (example_tracker\<lparr>frame_count := 41\<rparr>) ''u1'' False)) ''u1'') = 0"
    by simp
  with a s l c41 r41 r43 show ?thesis by simp
qed

section \<open>Properties of the liveness scorer\<close>

lemma crop_shape:
  assumes "0 \<le> r0" "r0 \<le> r1" "r1 \<le> int (shape0 a)" "0 \<le> c0" "c0 \<le> c1" "c1 \<le> int (shape1 a)"
  shows "int (shape0 (crop a r0 r1 c0 c1)) = r1 - r0" "int (shape1 (crop a r0 r1 c0 c1)) = c1 - c0"
  using assms by (simp_all add: crop_def slice_bound_def Let_def)

lemma small_region_rejected_aux:
  assumes "min (int (shape0 frame)) face_bottom \<le> max 0 face_top \<or>
           min (int (shape1 frame)) face_right \<le> max 0 face_left \<or>
           min (int (shape0 frame)) face_bottom - max 0 face_top < 80 \<or>
           min (int (shape1 frame)) face_right - max 0 face_left < 80"
  shows "detect_liveness fl cfg cv frame (face_top, face_right, face_bottom, face_left) = ((False, 0), [])"
proof (cases "min (int (shape0 frame)) face_bottom \<le> max 0 face_top \<or>
           min (int (shape1 frame)) face_right \<le> max 0 face_left")
  case True
  then show ?thesis by (simp add: detect_liveness_def Let_def)
next
  case False
  let ?t = "max 0 face_top" and ?b = "min (int (shape0 frame)) face_bottom"
  let ?l = "max 0 face_left" and ?r = "min (int (shape1 frame)) face_right"
  from False have o: "?t \<le> ?b" "?l \<le> ?r" by linarith+
  have s: "int (shape0 (crop frame ?t ?b ?l ?r)) = ?b - ?t" "int (shape1 (crop frame ?t ?b ?l ?r)) = ?r - ?l"
    using o by (simp_all add: crop_shape)
  from assms False have "?b - ?t < 80 \<or> ?r - ?l < 80" by blast
  with s have "shape0 (crop frame ?t ?b ?l ?r) < 80 \<or> shape1 (crop frame ?t ?b ?l ?r) < 80"
    by linarith
  with False show ?thesis by (simp add: detect_liveness_def Let_def)
qed

lemma accepted_region:
  assumes "accepted_box frame (face_top, face_right, face_bottom, face_left)"
  shows "\<not> (min (int (shape0 frame)) face_bottom \<le> max 0 face_top \<or>
           min (int (shape1 frame)) face_right \<le> max 0 face_left)"
    and "\<not> (shape0 (clamped_region frame (face_top, face_right, face_bottom, face_left)) < 80 \<or>
             shape1 (clamped_region frame (face_top, face_right, face_bottom, face_left)) < 80)"
proof -
  let ?t = "max 0 face_top" and ?b = "min (int (shape0 frame)) face_bottom"
  let ?l = "max 0 face_left" and ?r = "min (int (shape1 frame)) face_right"
  from assms have a: "80 \<le> ?b - ?t" "80 \<le> ?r - ?l" by (simp_all add: accepted_box_def)
  then show "\<not> (?b \<le> ?t \<or> ?r \<le> ?l)" by linarith
  from a have o: "?t \<le> ?b" "?l \<le> ?r" by linarith+
  have s: "int (shape0 (crop frame ?t ?b ?l ?r)) = ?b - ?t" "int (shape1 (crop frame ?t ?b ?l ?r)) = ?r - ?l"
    using o by (simp_all add: crop_shape)
  with a show "\<not> (shape0 (clamped_region frame (face_top, face_right, face_bottom, face_left)) < 80 \<or>
             shape1 (clamped_region frame (face_top, face_right, face_bottom, face_left)) < 80)"
    unfolding clamped_region_def by simp
qed

lemma detect_liveness_accepted:
  assumes "accepted_box frame face_location"
  shows "snd (fst (detect_liveness fl cfg cv frame face_location)) =
           fl_round fl 3
             (if spec_penalty fl cv (clamped_region frame face_location)
              then fl_mul fl (spec_fused fl cv (clamped_region frame face_location)) (fl_lit fl 0.5)
              else spec_fused fl cv (clamped_region frame face_location)) \<and>
         (fst (fst (detect_liveness fl cfg cv frame face_location)) \<longleftrightarrow>
            liveness_threshold cfg \<le>
              (if spec_penalty fl cv (clamped_region frame face_location)
               then fl_mul fl (spec_fused fl cv (clamped_region frame face_location)) (fl_lit fl 0.5)
               else spec_fused fl cv (clamped_region frame face_location)))"
proof -
  obtain face_top face_right face_bottom face_left
    where loc: "face_location = (face_top, face_right, face_bottom, face_left)"
    by (cases face_location) auto
  note r = accepted_region[OF assms[unfolded loc]]
  show ?thesis
    using r unfolding loc
    by (simp add: detect_liveness_def clamped_region_def Let_def spec_fused_def spec_penalty_def)
qed

lemma accepted_calls:
  assumes "accepted_box frame face_location"
  shows "snd (detect_liveness fl cfg cv frame face_location) =
           [Texture, ColorDiversity, Frequency, MobileScreen, Reflection]"
proof -
  obtain face_top face_right face_bottom face_left
    where loc: "face_location = (face_top, face_right, face_bottom, face_left)"
    by (cases face_location) auto
  note r = accepted_region[OF assms[unfolded loc]]
  show ?thesis
    using r unfolding loc
    by (simp add: detect_liveness_def clamped_region_def Let_def)
qed

text \<open>
  Claim C2. A box whose clamped region is empty or inverted, or less than 80 pixels high
  or wide, gets \<open>(False, 0)\<close> and no extractor is called; every other box has all five
  called.
\<close>

theorem small_region_rejected:
  "(min (int (shape0 frame)) face_bottom \<le> max 0 face_top \<or>
    min (int (shape1 frame)) face_right \<le> max 0 face_left \<or>
    min (int (shape0 frame)) face_bottom - max 0 face_top < 80 \<or>
    min (int (shape1 frame)) face_right - max 0 face_left < 80 \<longrightarrow>
    detect_liveness fl cfg cv frame (face_top, face_right, face_bottom, face_left) = ((False, 0), [])) \<and>
   (80 \<le> min (int (shape0 frame)) face_bottom - max 0 face_top \<and>
    80 \<le> min (int (shape1 frame)) face_right - max 0 face_left \<longrightarrow>
    snd (detect_liveness fl cfg cv frame (face_top, face_right, face_bottom, face_left)) =
      [Texture, ColorDiversity, Frequency, MobileScreen, Reflection])"
  using small_region_rejected_aux[of frame face_bottom face_top face_right face_left fl cfg cv]
    accepted_calls[of frame "(face_top, face_right, face_bottom, face_left)" fl cfg cv]
  by (simp add: accepted_box_def)

lemma example_region:
  "shape0 (clamped_region example_frame (100, 300, 300, 100)) = 200"
  "shape1 (clamped_region example_frame (100, 300, 300, 100)) = 200"
  by (simp_all add: clamped_region_def example_frame_def crop_def slice_bound_def Let_def)

lemma double_values:
  "to_double (7 / 10) = 3152519739159347 / 4503599627370496"
  "to_double (31 / 1000) = 1116892707587883 / 36028797018963968"
  "to_double (1 / 2) = 1 / 2"
  "to_double (1 / 32) = 1 / 32"
  by code_simp+

lemma example_arithmetic:
  "fl_div ieee_double (fl_add ieee_double (15 / 2) (15 / 2)) 2 = 15 / 2"
  "fl_sub ieee_double 1 (fl_mul ieee_double (fl_div ieee_double 4000 40000) 10) = 0"
  "fl_add ieee_double
     (fl_add ieee_double
        (fl_add ieee_double
           (fl_add ieee_double
              (fl_mul ieee_double (min (fl_div ieee_double 0 50) 1) (fl_lit ieee_double 0.35))
              (fl_mul ieee_double (min (fl_div ieee_double (15 / 2) 30) 1)
                 (fl_lit ieee_double 0.25)))
           (fl_mul ieee_double (min (fl_div ieee_double 0 1500) 1) (fl_lit ieee_double 0.20)))
        (fl_mul ieee_double 0 (fl_lit ieee_double 0.15)))
     (fl_mul ieee_double 0 (fl_lit ieee_double 0.05)) = 1 / 16"
  by code_simp+

lemma example_signals:
  "detect_mobile_screen ieee_double example_cv (clamped_region example_frame (100, 300, 300, 100))"
  "calculate_texture_score example_cv (clamped_region example_frame (100, 300, 300, 100)) = 0"
  "calculate_color_diversity ieee_double example_cv
     (clamped_region example_frame (100, 300, 300, 100)) = 15 / 2"
  "calculate_frequency_score example_cv (clamped_region example_frame (100, 300, 300, 100)) = 0"
  "calculate_reflection_score ieee_double example_cv
     (clamped_region example_frame (100, 300, 300, 100)) = 0"
  by (simp_all add: detect_mobile_screen_def calculate_texture_score_def
      calculate_color_diversity_def calculate_frequency_score_def calculate_reflection_score_def
      bgr_size_def gray_size_def example_region example_cv_def Let_def example_arithmetic)

lemma example_fused:
  "spec_fused ieee_double example_cv (clamped_region example_frame (100, 300, 300, 100)) = 1 / 16"
  by (simp only: spec_fused_def example_signals if_True example_arithmetic(3))

lemma example_accepted: "accepted_box example_frame (100, 300, 300, 100)"
  by (simp add: accepted_box_def example_frame_def)

lemma example_penalty:
  "spec_penalty ieee_double example_cv (clamped_region example_frame (100, 300, 300, 100))"
  by (simp add: spec_penalty_def example_signals)

lemma example_operations:
  "fl_lit ieee_double = to_double"
  "fl_mul ieee_double x y = to_double (x * y)"
  "fl_round ieee_double n x = to_double (py_round n x)"
  by (simp_all add: ieee_double_def)

lemma example_rounding: "py_round 3 (1 / 32) = 31 / 1000"
  by (simp add: py_round_def Let_def)

text \<open>On the score of the instance below both ways of rounding give the same double.\<close>

lemma example_rounding_numpy: "numpy_round 3 (1 / 32) = fl_round ieee_double 3 (1 / 32)"
  by code_simp

text \<open>
  Claim C3, amended. For a box that is not rejected, the returned score is the fused score
  of the specification, multiplied by 0.5 once when the screen flag is set or texture is
  below 20 and colour diversity below 12 (also when both hold), and then rounded to three
  decimals; the verdict compares the unrounded value with the threshold. This holds in
  every arithmetic of the doubles, the sum, the product and the rounding being those of
  that arithmetic.
\<close>

theorem penalty_applied_once:
  assumes "accepted_box frame face_location"
  shows "snd (fst (detect_liveness fl cfg cv frame face_location)) =
           fl_round fl 3
             (if spec_penalty fl cv (clamped_region frame face_location)
              then fl_mul fl (spec_fused fl cv (clamped_region frame face_location)) (fl_lit fl 0.5)
              else spec_fused fl cv (clamped_region frame face_location)) \<and>
         (fst (fst (detect_liveness fl cfg cv frame face_location)) \<longleftrightarrow>
            liveness_threshold cfg \<le>
              (if spec_penalty fl cv (clamped_region frame face_location)
               then fl_mul fl (spec_fused fl cv (clamped_region frame face_location)) (fl_lit fl 0.5)
               else spec_fused fl cv (clamped_region frame face_location)))"
  using assms by (rule detect_liveness_accepted)

text \<open>
  An instance on doubles in which both penalty conditions hold: the fused score 0.0625 is
  halved once to 0.03125 and returned as the double written \<open>0.031\<close>, with the verdict
  \<open>False\<close>.
\<close>

theorem penalty_applied_once_witness:
  "accepted_box example_frame (100, 300, 300, 100) \<and>
   detect_mobile_screen ieee_double example_cv (clamped_region example_frame (100, 300, 300, 100)) \<and>
   calculate_texture_score example_cv (clamped_region example_frame (100, 300, 300, 100)) < 20 \<and>
   calculate_color_diversity ieee_double example_cv
     (clamped_region example_frame (100, 300, 300, 100)) < 12 \<and>
   spec_fused ieee_double example_cv (clamped_region example_frame (100, 300, 300, 100)) = 0.0625 \<and>
   detect_liveness ieee_double example_liveness_config example_cv example_frame (100, 300, 300, 100) =
     ((False, to_double 0.031), [Texture, ColorDiversity, Frequency, MobileScreen, Reflection])"
proof -
  from penalty_applied_once[OF example_accepted, of ieee_double example_liveness_config example_cv]
    accepted_calls[OF example_accepted, of ieee_double example_liveness_config example_cv]
  have "detect_liveness ieee_double example_liveness_config example_cv example_frame
          (100, 300, 300, 100) =
     ((False, to_double 0.031), [Texture, ColorDiversity, Frequency, MobileScreen, Reflection])"
    by (simp add: example_penalty example_fused example_operations example_rounding double_values
        example_liveness_config_def prod_eq_iff)
  then show ?thesis
    by (simp add: example_accepted example_signals example_fused)
qed

text \<open>
  Claim C3, as stated, fails on the returned score: with the screen flag set, no texture
  and colour diversity 7.5, the fused score is 0.0625, its half is 0.03125, and the scorer
  returns the double written \<open>0.031\<close>.
\<close>

theorem returned_score_is_rounded:
  "snd (fst (detect_liveness ieee_double example_liveness_config example_cv example_frame
               (100, 300, 300, 100))) \<noteq>
   fl_mul ieee_double
     (spec_fused ieee_double example_cv (clamped_region example_frame (100, 300, 300, 100)))
     (fl_lit ieee_double 0.5)"
proof -
  from detect_liveness_accepted[OF example_accepted, of ieee_double example_liveness_config example_cv]
  show ?thesis
    by (simp add: example_penalty example_fused example_operations example_rounding double_values)
qed

text \<open>
  Instances: a box 70 pixels high, a box cut to 30 pixels by the lower edge of the frame,
  and a box of 200 by 200 pixels.
\<close>

theorem small_region_rejected_witness:
  "min (int (shape0 example_frame)) 170 - max 0 100 < 80 \<and>
   detect_liveness ieee_double example_liveness_config example_cv example_frame (100, 300, 170, 100) = ((False, 0), []) \<and>
   min (int (shape0 example_frame)) 600 - max 0 450 < 80 \<and>
   detect_liveness ieee_double example_liveness_config example_cv example_frame (450, 300, 600, 100) = ((False, 0), []) \<and>
   80 \<le> min (int (shape0 example_frame)) 300 - max 0 100 \<and>
   80 \<le> min (int (shape1 example_frame)) 300 - max 0 100 \<and>
   snd (detect_liveness ieee_double example_liveness_config example_cv example_frame (100, 300, 300, 100)) =
      [Texture, ColorDiversity, Frequency, MobileScreen, Reflection]"
proof -
  have a: "min (int (shape0 example_frame)) 170 - max 0 100 < 80"
    "min (int (shape0 example_frame)) 600 - max 0 450 < 80"
    "80 \<le> min (int (shape0 example_frame)) 300 - max 0 100"
    "80 \<le> min (int (shape1 example_frame)) 300 - max 0 100"
    by (simp_all add: example_frame_def)
  from small_region_rejected[of example_frame 170 100 300 100 ieee_double example_liveness_config example_cv]
    small_region_rejected[of example_frame 600 450 300 100 ieee_double example_liveness_config example_cv]
    small_region_rejected[of example_frame 300 100 300 100 ieee_double example_liveness_config example_cv]
    a
  show ?thesis by simp
qed

section \<open>Properties of the store and of attendance marking\<close>

lemma marks_for_insert:
  "marks_for (insert_attendance d row) u dt =
     marks_for d u dt + (if a_user_id row = u \<and> a_date row = dt then 1 else 0)"
  by (simp add: marks_for_def insert_attendance_def insert_row_def update_statistics_def)

lemma already_marked_iff: "already_marked d u dt \<longleftrightarrow> 0 < marks_for d u dt"
  by (simp add: already_marked_def marks_for_def)

lemma attendance_record_key [simp]:
  "a_user_id (attendance_record H now v name regno ls em en bh fe conf loc) = v"
  "a_date (attendance_record H now v name regno ls em en bh fe conf loc) = c_date now"
  by (simp_all add: attendance_record_def)

lemma mark_attendance_no_fault:
  "mark_attendance H now v name regno ls em en bh fe conf loc None d =
     (if 0 < marks_for d v (c_date now) then (d, False, ''Already marked today'')
      else (insert_attendance d (attendance_record H now v name regno ls em en bh fe conf loc),
            True, ''Success''))"
  by (simp add: mark_attendance_def raises_def already_marked_iff insert_attendance_def Let_def)

lemma mark_attendance_atomic:
  "fst (mark_attendance H now v name regno ls em en bh fe conf loc fault d) =
     (if fst (snd (mark_attendance H now v name regno ls em en bh fe conf loc fault d))
      then insert_attendance d (attendance_record H now v name regno ls em en bh fe conf loc)
      else d)"
  by (simp add: mark_attendance_def insert_attendance_def Let_def split: option.splits)

lemma mark_attendance_success:
  assumes "fst (snd (mark_attendance H now v name regno ls em en bh fe conf loc fault d))"
  shows "marks_for d v (c_date now) = 0"
    and "snd (snd (mark_attendance H now v name regno ls em en bh fe conf loc fault d)) = ''Success''"
  using assms
  by (simp_all add: mark_attendance_def already_marked_iff Let_def split: option.splits if_splits)

lemma mark_attendance_conflict:
  assumes "snd (mark_attendance H now v name regno ls em en bh fe conf loc fault d) =
             (False, ''Already marked today'')"
    and "map_option snd fault \<noteq> Some ''Already marked today''"
  shows "0 < marks_for d v (c_date now)"
  using assms
  by (auto simp: mark_attendance_def raises_def already_marked_iff Let_def
      split: option.splits if_splits prod.splits)

lemma mark_attendance_unique:
  assumes "marks_for d u dt \<le> 1"
  shows "marks_for (fst (mark_attendance H now v name regno ls em en bh fe conf loc fault d)) u dt \<le> 1"
proof (cases "fst (snd (mark_attendance H now v name regno ls em en bh fe conf loc fault d))")
  case True
  from mark_attendance_success(1)[OF True] have z: "marks_for d v (c_date now) = 0" .
  from True have "fst (mark_attendance H now v name regno ls em en bh fe conf loc fault d) =
      insert_attendance d (attendance_record H now v name regno ls em en bh fe conf loc)"
    by (subst mark_attendance_atomic) simp
  with assms z show ?thesis by (auto simp: marks_for_insert)
next
  case False
  then have "fst (mark_attendance H now v name regno ls em en bh fe conf loc fault d) = d"
    by (subst mark_attendance_atomic) simp
  with assms show ?thesis by simp
qed

lemma sort_key_Nil_iff: "sort_key f xs = [] \<longleftrightarrow> xs = []"
  by (metis length_0_conv length_sort)

lemma records_empty_iff:
  assumes "u \<noteq> []" "dt \<noteq> []"
  shows "get_attendance_records d (Some dt) (Some u) 100 False \<noteq> [] \<longleftrightarrow> 0 < marks_for d u dt"
proof -
  have "filter (\<lambda>r. a_date r = dt \<and> a_user_id r = u) (attendance d) =
        filter (\<lambda>r. a_user_id r = u \<and> a_date r = dt) (attendance d)"
    by (rule filter_cong) auto
  with assms show ?thesis
    by (simp add: get_attendance_records_def marks_for_def truthy_def Let_def sort_key_Nil_iff)
qed

lemma records_raised [simp]: "get_attendance_records d date u limit True = []"
  by (simp add: get_attendance_records_def)

lemma check_already_marked_effect:
  "db (fst (check_already_marked ev s)) = db s"
  "blockchain (fst (check_already_marked ev s)) = blockchain s"
  "recognized_today (tracker (fst (check_already_marked ev s))) =
     (if get_attendance_records (db s) (Some (ev_today ev)) (Some (ev_user_id ev)) 100
           (f_lookup (ev_faults ev)) \<noteq> []
      then insert (ev_user_id ev) (recognized_today (tracker s))
      else recognized_today (tracker s))"
  by (simp_all add: check_already_marked_def Let_def)

lemma update_liveness_smooth_recognized [simp]:
  "recognized_today (fst (update_liveness_smooth F tr u x)) = recognized_today tr"
  by (simp add: update_liveness_smooth_def Let_def)

lemma anti_spoofing_effect [simp]:
  "db (fst (anti_spoofing cfg F ev s)) = db s"
  "blockchain (fst (anti_spoofing cfg F ev s)) = blockchain s"
  "recognized_today (tracker (fst (anti_spoofing cfg F ev s))) = recognized_today (tracker s)"
proof -
  obtain a b where l: "ev_liveness ev = (a, b)" by (cases "ev_liveness ev")
  obtain tr x y where u: "update_liveness_smooth F (tracker s) (ev_user_id ev) b = (tr, x, y)"
    by (cases "update_liveness_smooth F (tracker s) (ev_user_id ev) b") auto
  then have tr: "tr = fst (update_liveness_smooth F (tracker s) (ev_user_id ev) b)" by simp
  have f: "fst (anti_spoofing cfg F ev s) = (if enable_antispoofing cfg then s\<lparr>tracker := tr\<rparr> else s)"
    by (simp add: anti_spoofing_def l u)
  show "db (fst (anti_spoofing cfg F ev s)) = db s"
    "blockchain (fst (anti_spoofing cfg F ev s)) = blockchain s"
    "recognized_today (tracker (fst (anti_spoofing cfg F ev s))) = recognized_today (tracker s)"
    unfolding f by (simp_all add: tr)
qed

lemma verdicts_effect:
  "db (fst (verdicts cfg F ev s)) = db s"
  "blockchain (fst (verdicts cfg F ev s)) = blockchain s"
  "recognized_today (tracker (fst (verdicts cfg F ev s))) =
     (if get_attendance_records (db s) (Some (ev_today ev)) (Some (ev_user_id ev)) 100
           (f_lookup (ev_faults ev)) \<noteq> []
      then insert (ev_user_id ev) (recognized_today (tracker s))
      else recognized_today (tracker s))"
proof -
  obtain s1 a where c: "check_already_marked ev s = (s1, a)" by (cases "check_already_marked ev s")
  obtain s2 l sc where a: "anti_spoofing cfg F ev s1 = (s2, l, sc)"
    by (cases "anti_spoofing cfg F ev s1") auto
  obtain tr st where u: "update_detection (tracker s2) (ev_user_id ev) True = (tr, st)"
    by (cases "update_detection (tracker s2) (ev_user_id ev) True")
  have v: "fst (verdicts cfg F ev s) = s2\<lparr>tracker := tr\<rparr>"
    by (simp add: verdicts_def c a u)
  have s1: "s1 = fst (check_already_marked ev s)" using c by simp
  have s2: "s2 = fst (anti_spoofing cfg F ev s1)" using a by simp
  have tr: "tr = fst (update_detection (tracker s2) (ev_user_id ev) True)" using u by simp
  show "db (fst (verdicts cfg F ev s)) = db s"
    unfolding v by (simp add: s2 s1 check_already_marked_effect)
  show "blockchain (fst (verdicts cfg F ev s)) = blockchain s"
    unfolding v by (simp add: s2 s1 check_already_marked_effect)
  show "recognized_today (tracker (fst (verdicts cfg F ev s))) =
     (if get_attendance_records (db s) (Some (ev_today ev)) (Some (ev_user_id ev)) 100
           (f_lookup (ev_faults ev)) \<noteq> []
      then insert (ev_user_id ev) (recognized_today (tracker s))
      else recognized_today (tracker s))"
    unfolding v by (simp add: tr s2 s1 check_already_marked_effect)
qed

text \<open>
  The smoother on doubles: the mean of three readings of \<open>0.7\<close> is below the double
  written \<open>0.7\<close>, so such a face is not live, and a first reading of 1 is.
\<close>

lemma smoothed_readings:
  "fl_mean ieee_double [to_double 0.7, to_double 0.7, to_double 0.7] < fl_lit ieee_double 0.7"
  "fl_lit ieee_double 0.7 \<le> fl_mean ieee_double [1]"
  by code_simp+

lemma emotion_step_effect [simp]:
  "db (fst (emotion_step cfg ev s)) = db s"
  "blockchain (fst (emotion_step cfg ev s)) = blockchain s"
  "tracker (fst (emotion_step cfg ev s)) = tracker s"
  "detected_faces (fst (emotion_step cfg ev s)) = detected_faces s"
  by (simp_all add: emotion_step_def Let_def split: emotion_outcome.splits)


lemma add_block_total:
  assumes "chain bc \<noteq> []" "\<And>b. mine_block H J (difficulty bc) b \<noteq> None"
  shows "\<exists>nb. add_block H J now d False bc =
            Some (bc\<lparr>chain := chain bc @ [nb]\<rparr>, Some (hash nb)) \<and> data nb = d"
proof -
  let ?b = "Block H J (int (length (chain bc))) now d (hash (last (chain bc)))"
  from assms(2)[of ?b] obtain nb where m: "mine_block H J (difficulty bc) ?b = Some nb" by auto
  from mine_block_post[OF m] have "data nb = d" by simp
  with m assms(1) show ?thesis
    by (intro exI[of _ nb]) (simp add: add_block_def get_latest_block_def save_chain_def)
qed


text \<open>The marking branch when neither the ledger nor the write raises.\<close>

lemma mark_branch_effect:
  assumes bcfg: "enable_blockchain cfg" and ne: "chain (blockchain s) \<noteq> []"
    and total: "\<And>b. mine_block H J (difficulty (blockchain s)) b \<noteq> None"
    and quiet: "\<not> f_add_block (ev_faults ev)" "f_mark (ev_faults ev) = None"
  shows "\<exists>s' nb ad success.
           mark_branch cfg F H J ev regno ls s =
             Some (s', success, if success then ''Success'' else ''Already marked today'') \<and>
           success = (marks_for (db s) (ev_user_id ev) (c_date (ev_mark_now ev)) = 0) \<and>
           chain (blockchain s') = chain (blockchain s) @ [nb] \<and>
           difficulty (blockchain s') = difficulty (blockchain s) \<and>
           data nb = AttendanceData ad \<and> ad_user_id ad = ev_user_id ev \<and>
           ad_timestamp ad = ev_isoformat ev \<and>
           (\<forall>u dt. marks_for (db s') u dt =
                      marks_for (db s) u dt +
                      (if success \<and> u = ev_user_id ev \<and> dt = c_date (ev_mark_now ev) then 1 else 0)) \<and>
           (\<not> success \<longrightarrow> db s' = db s) \<and>
           recognized_today (tracker s') =
             (if success then insert (ev_user_id ev) (recognized_today (tracker s))
              else recognized_today (tracker s))"
proof -
  obtain s1 em en where e: "emotion_step cfg ev s = (s1, em, en)"
    by (cases "emotion_step cfg ev s") auto
  then have s1: "s1 = fst (emotion_step cfg ev s)" by simp
  have s1f: "db s1 = db s" "blockchain s1 = blockchain s" "tracker s1 = tracker s"
    by (simp_all add: s1)
  define ad where "ad = \<lparr>ad_type = ''attendance'', ad_user_id = ev_user_id ev, ad_name = ev_name ev,
               ad_registration_number = regno, ad_timestamp = ev_isoformat ev,
               ad_liveness_score = ls, ad_confidence = ev_confidence ev,
               ad_emotion = em, ad_engagement = en\<rparr>"
  from add_block_total[OF ne total, of "ev_block_now ev" "AttendanceData ad"]
  obtain nb where ab: "add_block H J (ev_block_now ev) (AttendanceData ad) False (blockchain s) =
      Some ((blockchain s)\<lparr>chain := chain (blockchain s) @ [nb]\<rparr>, Some (hash nb))"
    and nb: "data nb = AttendanceData ad" by blast
  define success where "success = (marks_for (db s) (ev_user_id ev) (c_date (ev_mark_now ev)) = 0)"
  define bc where "bc = (blockchain s)\<lparr>chain := chain (blockchain s) @ [nb]\<rparr>"
  define row where "row = attendance_record H (ev_mark_now ev) (ev_user_id ev) (ev_name ev) regno ls
      em en (Some (hash nb)) (ev_face_encoding ev) (fl_div F (ev_confidence ev) 100) ''Main Campus''"
  define s' where "s' =
     (if success then
        s1\<lparr>blockchain := bc, db := insert_attendance (db s) row,
            tracker := (tracker s)\<lparr>recognized_today := insert (ev_user_id ev) (recognized_today (tracker s))\<rparr>,
            detected_faces := (detected_faces s1)(ev_user_id ev :=
              map_option (\<lambda>f. f\<lparr>fd_just_marked := True, fd_mark_time := Some (frame_count (tracker s))\<rparr>)
                (detected_faces s1 (ev_user_id ev)))\<rparr>
      else s1\<lparr>blockchain := bc, db := db s\<rparr>)"
  have m: "mark_branch cfg F H J ev regno ls s =
      Some (s', success, if success then ''Success'' else ''Already marked today'')"
    using bcfg
    by (simp add: mark_branch_def e ad_def[symmetric] s1f quiet ab mark_attendance_no_fault Let_def
        s'_def success_def bc_def row_def)
  have k: "a_user_id row = ev_user_id ev" "a_date row = c_date (ev_mark_now ev)"
    by (simp_all add: row_def)
  have "\<forall>u dt. marks_for (db s') u dt =
          marks_for (db s) u dt +
          (if success \<and> u = ev_user_id ev \<and> dt = c_date (ev_mark_now ev) then 1 else 0)"
    by (auto simp: s'_def marks_for_insert k)
  moreover have "chain (blockchain s') = chain (blockchain s) @ [nb]"
    "difficulty (blockchain s') = difficulty (blockchain s)"
    by (simp_all add: s'_def bc_def)
  moreover have "\<not> success \<longrightarrow> db s' = db s" by (simp add: s'_def)
  moreover have "recognized_today (tracker s') =
             (if success then insert (ev_user_id ev) (recognized_today (tracker s))
              else recognized_today (tracker s))"
    by (simp add: s'_def s1f)
  moreover have "ad_user_id ad = ev_user_id ev" "ad_timestamp ad = ev_isoformat ev"
    by (simp_all add: ad_def)
  ultimately show ?thesis
    using m nb success_def by blast
qed





lemma tick_marked_once [simp]:
  "marked_once u dt (s\<lparr>tracker := increment_frame (tracker s)\<rparr>) = marked_once u dt s"
  by (simp add: marked_once_def increment_frame_def)

lemma miss_marked_once [simp]:
  "marked_once u dt (s\<lparr>tracker := fst (update_detection (tracker s) w False)\<rparr>) = marked_once u dt s"
  by (simp add: marked_once_def)







lemma observe_recognized [simp]:
  "recognized_today (observe tr u obs) = recognized_today tr"
  by (induction tr u obs rule: observe.induct) simp_all

lemma prefix_sha_mining: "mine_block prefix_sha J 2 b \<noteq> None"
proof (cases "py_prefix 2 (hash b) \<noteq> target 2")
  case False
  then show ?thesis by (subst mine_block.simps) simp
next
  case True
  let ?b1 = "b\<lparr>nonce := nonce b + 1, hash := calculate_hash prefix_sha J (b\<lparr>nonce := nonce b + 1\<rparr>)\<rparr>"
  have h: "py_prefix 2 (hash ?b1) = target 2"
    by (simp add: calculate_hash_def prefix_sha_def py_prefix_def target_def numeral_2_eq_2)
  have "mine_block prefix_sha J 2 ?b1 = Some ?b1"
    by (subst mine_block.simps) (simp only: h, simp)
  with True show ?thesis
    by (subst mine_block.simps) (simp add: Let_def)
qed



lemma example_event_facts:
  "ev_user_id example_event = ''u1''"
  "ev_today example_event = ''2025-01-01''"
  "c_date (ev_mark_now example_event) = ''2025-01-01''"
  "on_date ''2025-01-01'' example_event"
  "undisturbed example_event"
  "f_lookup (ev_faults example_event) = False"
  "f_add_block (ev_faults example_event) = False"
  "f_mark (ev_faults example_event) = None"
  by (simp_all add: example_event_def on_date_def undisturbed_def no_faults_def)



lemma process_match_recognized:
  assumes "0 < marks_for (db s) (ev_user_id ev) (ev_today ev)" "ev_user_id ev \<noteq> []" "ev_today ev \<noteq> []"
    and "\<not> f_lookup (ev_faults ev)"
  shows "\<exists>s'. process_match cfg F H J ev s = Some s' \<and> db s' = db s \<and> blockchain s' = blockchain s \<and>
           recognized_today (tracker s') = insert (ev_user_id ev) (recognized_today (tracker s))"
proof -
  let ?v = "ev_user_id ev"
  obtain s1 st lv sc am where vd: "verdicts cfg F ev s = (s1, st, lv, sc, am)"
    by (cases "verdicts cfg F ev s") auto
  then have s1: "s1 = fst (verdicts cfg F ev s)" by simp
  from assms have "get_attendance_records (db s) (Some (ev_today ev)) (Some ?v) 100
      (f_lookup (ev_faults ev)) \<noteq> []"
    by (simp add: records_empty_iff)
  then have s1f: "db s1 = db s" "blockchain s1 = blockchain s"
    "recognized_today (tracker s1) = insert ?v (recognized_today (tracker s))"
    unfolding s1 by (simp_all add: verdicts_effect)
  show ?thesis
    by (simp add: process_match_def Let_def vd s1f)
qed

lemma mark_branch_conflict:
  assumes "mark_branch cfg F H J ev regno ls s = Some (s1, False, msg)"
  shows "db s1 = db s \<and> recognized_today (tracker s1) = recognized_today (tracker s) \<and>
         detected_faces s1 = detected_faces s \<and>
         (msg = ''Already marked today'' \<and>
          map_option snd (f_mark (ev_faults ev)) \<noteq> Some ''Already marked today'' \<longrightarrow>
          0 < marks_for (db s) (ev_user_id ev) (c_date (ev_mark_now ev)))"
proof -
  obtain s0 em en where e: "emotion_step cfg ev s = (s0, em, en)"
    by (cases "emotion_step cfg ev s") auto
  then have s0: "s0 = fst (emotion_step cfg ev s)" by simp
  have s0f: "db s0 = db s" "blockchain s0 = blockchain s" "tracker s0 = tracker s"
    "detected_faces s0 = detected_faces s"
    by (simp_all add: s0)
  from assms obtain bc h where
    r: "mark_attendance H (ev_mark_now ev) (ev_user_id ev) (ev_name ev) regno ls em en h
          (ev_face_encoding ev) (fl_div F (ev_confidence ev) 100) ''Main Campus''
          (f_mark (ev_faults ev)) (db s) = (db s1, False, msg)"
    and s1: "s1 = s0\<lparr>blockchain := bc, db := db s1\<rparr>"
    by (auto simp: mark_branch_def e s0f Let_def split: option.splits if_splits prod.splits)
  from r have "db s1 = db s"
    using mark_attendance_atomic[of H "ev_mark_now ev" "ev_user_id ev" "ev_name ev" regno ls em en h
        "ev_face_encoding ev" "fl_div F (ev_confidence ev) 100" "''Main Campus''"
        "f_mark (ev_faults ev)" "db s"]
    by simp
  moreover have "recognized_today (tracker s1) = recognized_today (tracker s)"
    "detected_faces s1 = detected_faces s"
    by (subst s1, simp add: s0f)+
  moreover have "0 < marks_for (db s) (ev_user_id ev) (c_date (ev_mark_now ev))"
    if "msg = ''Already marked today''"
      "map_option snd (f_mark (ev_faults ev)) \<noteq> Some ''Already marked today''"
    using mark_attendance_conflict[of H "ev_mark_now ev" "ev_user_id ev" "ev_name ev" regno ls em en h
        "ev_face_encoding ev" "fl_div F (ev_confidence ev) 100" "''Main Campus''"
        "f_mark (ev_faults ev)" "db s"] r that
    by simp
  ultimately show ?thesis by blast
qed

text \<open>
  Claim C9, amended. When the write reports \<open>Already marked today\<close> (the text being that
  of the conflict and not of an exception), the marking branch ends without an error and
  leaves the store, the face display and the recognized-today set as they were; the next
  match of the identity on that date whose database look-up does not raise finds the row,
  puts the identity into the set and writes nothing to the store or the ledger.
\<close>

theorem conflict_is_settled_by_lookup:
  assumes conflict: "mark_branch cfg fl sha256_hex json_dumps ev regno liveness_score s =
                       Some (s1, False, ''Already marked today'')"
    and reported: "map_option snd (f_mark (ev_faults ev)) \<noteq> Some ''Already marked today''"
    and same: "ev_user_id ev' = ev_user_id ev" "ev_today ev' = c_date (ev_mark_now ev)"
    and looked_up: "\<not> f_lookup (ev_faults ev')"
    and wf: "ev_user_id ev \<noteq> []" "c_date (ev_mark_now ev) \<noteq> []"
  shows "db s1 = db s \<and> detected_faces s1 = detected_faces s \<and>
         recognized_today (tracker s1) = recognized_today (tracker s) \<and>
         (\<exists>s2. process_match cfg fl sha256_hex json_dumps ev' s1 = Some s2 \<and>
                db s2 = db s1 \<and> blockchain s2 = blockchain s1 \<and>
                ev_user_id ev \<in> recognized_today (tracker s2))"
proof -
  from mark_branch_conflict[OF conflict] reported
  have m: "0 < marks_for (db s) (ev_user_id ev) (c_date (ev_mark_now ev))" and d: "db s1 = db s"
    and r: "recognized_today (tracker s1) = recognized_today (tracker s)"
    and f: "detected_faces s1 = detected_faces s" by simp_all
  from m d same have p: "0 < marks_for (db s1) (ev_user_id ev') (ev_today ev')" by simp
  from same wf have w: "ev_user_id ev' \<noteq> []" "ev_today ev' \<noteq> []" by simp_all
  from process_match_recognized[OF p w looked_up, of cfg fl sha256_hex json_dumps] same
  obtain s2 where "process_match cfg fl sha256_hex json_dumps ev' s1 = Some s2" "db s2 = db s1"
    "blockchain s2 = blockchain s1" "ev_user_id ev \<in> recognized_today (tracker s2)"
    by auto
  with d r f show ?thesis by blast
qed

lemma example_conflict_marks:
  "marks_for (db example_conflict) ''u1'' ''2025-01-01'' = 1"
  by (simp add: example_conflict_def example_session_def example_row_def example_event_def
      marks_for_insert attendance_record_def)
     (simp add: marks_for_def)

lemma example_mark_branch:
  "\<exists>s1. mark_branch example_config ieee_double prefix_sha example_dumps example_event ''N/A'' 1
          example_conflict =
          Some (s1, False, ''Already marked today'') \<and>
        recognized_today (tracker s1) = recognized_today (tracker example_conflict)"
proof -
  have c: "enable_blockchain example_config" by (simp add: example_config_def)
  have g: "chain (blockchain example_conflict) \<noteq> []"
    by (simp add: example_conflict_def example_session_def)
  have m: "\<And>b. mine_block prefix_sha example_dumps (difficulty (blockchain example_conflict)) b \<noteq> None"
    by (simp add: example_conflict_def example_session_def prefix_sha_mining)
  have q: "\<not> f_add_block (ev_faults example_event)" "f_mark (ev_faults example_event) = None"
    by (simp_all add: example_event_facts)
  from mark_branch_effect[OF c g m q, of ieee_double "''N/A''" 1]
  show ?thesis
    unfolding example_event_facts example_conflict_marks by auto
qed

text \<open>
  Claim C9, as stated, fails: after a write that reports the conflict, the identity is
  still outside the recognized-today set.
\<close>

theorem conflict_leaves_set_unchanged:
  "map_option snd
     (mark_branch example_config ieee_double prefix_sha example_dumps example_event ''N/A'' 1
        example_conflict) =
     Some (False, ''Already marked today'') \<and>
   ''u1'' \<notin> recognized_today (tracker (fst (the
     (mark_branch example_config ieee_double prefix_sha example_dumps example_event ''N/A'' 1
        example_conflict))))"
proof -
  from example_mark_branch obtain s1 where
    m: "mark_branch example_config ieee_double prefix_sha example_dumps example_event ''N/A'' 1
          example_conflict =
          Some (s1, False, ''Already marked today'')"
    and r: "recognized_today (tracker s1) = recognized_today (tracker example_conflict)" by blast
  have "''u1'' \<notin> recognized_today (tracker example_conflict)"
    by (simp add: example_conflict_def example_session_def AttendanceTracker_def)
  with m r show ?thesis by simp
qed

text \<open>
  An instance: a row of the day stored behind the back of the tracker.
\<close>

theorem conflict_is_settled_by_lookup_witness:
  "\<exists>s1 s2. mark_branch example_config ieee_double prefix_sha example_dumps example_event ''N/A'' 1
              example_conflict =
            Some (s1, False, ''Already marked today'') \<and>
          map_option snd (f_mark (ev_faults example_event)) \<noteq> Some ''Already marked today'' \<and>
          \<not> f_lookup (ev_faults example_event) \<and>
          ev_user_id example_event \<noteq> [] \<and> c_date (ev_mark_now example_event) \<noteq> [] \<and>
          ev_today example_event = c_date (ev_mark_now example_event) \<and>
          ''u1'' \<notin> recognized_today (tracker s1) \<and>
          process_match example_config ieee_double prefix_sha example_dumps example_event s1 = Some s2 \<and>
          db s2 = db example_conflict \<and> blockchain s2 = blockchain s1 \<and>
          ''u1'' \<in> recognized_today (tracker s2)"
proof -
  from example_mark_branch obtain s1 where
    m: "mark_branch example_config ieee_double prefix_sha example_dumps example_event ''N/A'' 1
          example_conflict =
          Some (s1, False, ''Already marked today'')" by blast
  have k: "ev_user_id example_event = ''u1''" "ev_user_id example_event \<noteq> []"
    "c_date (ev_mark_now example_event) \<noteq> []"
    "ev_today example_event = c_date (ev_mark_now example_event)"
    "map_option snd (f_mark (ev_faults example_event)) \<noteq> Some ''Already marked today''"
    "\<not> f_lookup (ev_faults example_event)"
    by (simp_all add: example_event_facts)
  have n: "''u1'' \<notin> recognized_today (tracker example_conflict)"
    by (simp add: example_conflict_def example_session_def AttendanceTracker_def)
  from conflict_is_settled_by_lookup[OF m k(5) refl k(4) k(6) k(2) k(3)] m k n
  show ?thesis by auto
qed

lemma insert_or_replace_count:
  "users_with_regno (insert_or_replace_user d row) r =
     length (filter (\<lambda>old. \<not> conflicts row old)
               (filter (\<lambda>x. u_registration_number x = Some r) (users d))) +
     (if u_registration_number row = Some r then 1 else 0)"
  by (simp add: users_with_regno_def insert_or_replace_user_def conj_commute)

lemma insert_or_replace_unique:
  assumes "users_with_regno d r \<le> 1"
  shows "users_with_regno (insert_or_replace_user d row) r \<le> 1"
proof (cases "u_registration_number row = Some r")
  case True
  then have "\<forall>x\<in>set (filter (\<lambda>x. u_registration_number x = Some r) (users d)). conflicts row x"
    by (simp add: conflicts_def)
  then have "filter (\<lambda>old. \<not> conflicts row old)
               (filter (\<lambda>x. u_registration_number x = Some r) (users d)) = []"
    unfolding filter_empty_conv by blast
  with True show ?thesis unfolding insert_or_replace_count by simp
next
  case False
  have "length (filter (\<lambda>old. \<not> conflicts row old)
               (filter (\<lambda>x. u_registration_number x = Some r) (users d)))
        \<le> length (filter (\<lambda>x. u_registration_number x = Some r) (users d))"
    by (rule length_filter_le)
  with False assms show ?thesis
    unfolding insert_or_replace_count by (simp add: users_with_regno_def)
qed

lemma add_user_atomic:
  "fst (add_user H now uid name fe regno email dept phone cb fault d) =
     (if snd (add_user H now uid name fe regno email dept phone cb fault d)
      then insert_or_replace_user d (user_record H now uid name fe regno email dept phone cb)
      else d)"
  by (simp add: add_user_def Let_def)

lemma add_user_unique:
  assumes "users_with_regno d r \<le> 1"
  shows "users_with_regno (fst (add_user H now uid name fe regno email dept phone cb fault d)) r \<le> 1"
proof (cases "snd (add_user H now uid name fe regno email dept phone cb fault d)")
  case True
  then have "fst (add_user H now uid name fe regno email dept phone cb fault d) =
      insert_or_replace_user d (user_record H now uid name fe regno email dept phone cb)"
    by (subst add_user_atomic) simp
  with assms show ?thesis by (simp only: insert_or_replace_unique)
next
  case False
  then have "fst (add_user H now uid name fe regno email dept phone cb fault d) = d"
    by (subst add_user_atomic) simp
  with assms show ?thesis by simp
qed

lemma add_user_refuses:
  assumes "0 < users_with_regno d r" "r \<noteq> []"
  shows "add_user H now uid name fe (Some r) email dept phone cb fault d = (d, False)"
  using assms by (simp add: add_user_def users_with_regno_def truthy_def)

text \<open>
  Claim C8, amended. The users table keeps at most one row per registration number: the
  insert with replacement preserves it, and \<open>add_user\<close> preserves it and refuses a
  non-empty number that is present. For the attendance table the bound of one row per
  identity and date is kept by \<open>mark_attendance\<close> as a whole, its look-up followed by its
  insert, not by the table. Both writes are atomic: whichever statement raises,
  \<open>mark_attendance\<close> leaves the store as it was and reports failure, or it has written the
  whole row together with the statistics of the user and reports success, and \<open>add_user\<close>
  leaves the store as it was and returns \<open>False\<close>, or it has written the whole user row
  and returns \<open>True\<close>.
\<close>

theorem storage_uniqueness:
  "(users_with_regno d r \<le> 1 \<longrightarrow>
      users_with_regno (insert_or_replace_user d row) r \<le> 1 \<and>
      users_with_regno
        (fst (add_user sha256_hex now user_id name face_encoding regno email department phone
                created_by fault d)) r \<le> 1) \<and>
   (0 < users_with_regno d r \<and> r \<noteq> [] \<longrightarrow>
      add_user sha256_hex now user_id name face_encoding (Some r) email department phone
        created_by fault d = (d, False)) \<and>
   (marks_for d u dt \<le> 1 \<longrightarrow>
      marks_for
        (fst (mark_attendance sha256_hex now user_id name registration_number liveness_score
                emotion engagement_score blockchain_hash face_encoding confidence location
                fault d))
        u dt \<le> 1) \<and>
   fst (mark_attendance sha256_hex now user_id name registration_number liveness_score
          emotion engagement_score blockchain_hash face_encoding confidence location fault d) =
     (if fst (snd (mark_attendance sha256_hex now user_id name registration_number liveness_score
                     emotion engagement_score blockchain_hash face_encoding confidence location
                     fault d))
      then insert_attendance d
             (attendance_record sha256_hex now user_id name registration_number liveness_score
                emotion engagement_score blockchain_hash face_encoding confidence location)
      else d) \<and>
   fst (add_user sha256_hex now user_id name face_encoding regno email department phone
          created_by fault d) =
     (if snd (add_user sha256_hex now user_id name face_encoding regno email department phone
                created_by fault d)
      then insert_or_replace_user d
             (user_record sha256_hex now user_id name face_encoding regno email department phone
                created_by)
      else d)"
proof (intro conjI impI)
  assume "users_with_regno d r \<le> 1"
  then show "users_with_regno (insert_or_replace_user d row) r \<le> 1"
    by (rule insert_or_replace_unique)
next
  assume "users_with_regno d r \<le> 1"
  then show "users_with_regno
        (fst (add_user sha256_hex now user_id name face_encoding regno email department phone
                created_by fault d)) r \<le> 1"
    by (rule add_user_unique)
next
  assume "0 < users_with_regno d r \<and> r \<noteq> []"
  then show "add_user sha256_hex now user_id name face_encoding (Some r) email department phone
        created_by fault d = (d, False)"
    by (simp add: add_user_refuses)
next
  assume "marks_for d u dt \<le> 1"
  then show "marks_for
        (fst (mark_attendance sha256_hex now user_id name registration_number liveness_score
                emotion engagement_score blockchain_hash face_encoding confidence location
                fault d))
        u dt \<le> 1"
    by (rule mark_attendance_unique)
next
  show "fst (mark_attendance sha256_hex now user_id name registration_number liveness_score
          emotion engagement_score blockchain_hash face_encoding confidence location fault d) =
     (if fst (snd (mark_attendance sha256_hex now user_id name registration_number liveness_score
                     emotion engagement_score blockchain_hash face_encoding confidence location
                     fault d))
      then insert_attendance d
             (attendance_record sha256_hex now user_id name registration_number liveness_score
                emotion engagement_score blockchain_hash face_encoding confidence location)
      else d)"
    by (rule mark_attendance_atomic)
next
  show "fst (add_user sha256_hex now user_id name face_encoding regno email department phone
          created_by fault d) =
     (if snd (add_user sha256_hex now user_id name face_encoding regno email department phone
                created_by fault d)
      then insert_or_replace_user d
             (user_record sha256_hex now user_id name face_encoding regno email department phone
                created_by)
      else d)"
    by (rule add_user_atomic)
qed

text \<open>
  Claim C8, as stated, fails for the attendance table: when two writers have both found no
  row of the day, the table takes the insert of each, and holds two rows for the identity
  and the date.
\<close>

theorem attendance_table_accepts_duplicates:
  "\<not> already_marked (db example_session) ''u1'' ''2025-01-01'' \<and>
   marks_for (insert_attendance (insert_attendance (db example_session) example_row) example_row)
     ''u1'' ''2025-01-01'' = 2"
  by (simp add: already_marked_iff marks_for_insert example_row_def example_event_def)
     (simp add: marks_for_def example_session_def)

text \<open>
  Instances: a second mark on the same day, a second user with a registration number that
  is taken, and a write whose update of the statistics raises, which leaves no row.
\<close>

theorem storage_uniqueness_witness:
  "marks_for (db example_session) ''u1'' ''2025-01-01'' \<le> 1 \<and>
   marks_for (db example_conflict) ''u1'' ''2025-01-01'' = 1 \<and>
   marks_for
     (fst (mark_attendance prefix_sha (ev_mark_now example_event) ''u1'' ''Asha'' ''N/A'' 1
             ''Happy'' 100 None ''e1'' (to_double (91 / 100)) ''Main Campus'' None
             (db example_conflict)))
     ''u1'' ''2025-01-01'' \<le> 1 \<and>
   users_with_regno (db example_session) ''R1'' \<le> 1 \<and>
   users_with_regno
     (fst (add_user prefix_sha (ev_mark_now example_event) ''u1'' ''Asha'' ''e1'' (Some ''R1'')
             None None None None None (db example_session))) ''R1'' = 1 \<and>
   add_user prefix_sha (ev_mark_now example_event) ''u2'' ''Bela'' ''e2'' (Some ''R1'')
     None None None None None
     (fst (add_user prefix_sha (ev_mark_now example_event) ''u1'' ''Asha'' ''e1'' (Some ''R1'')
             None None None None None (db example_session))) =
     (fst (add_user prefix_sha (ev_mark_now example_event) ''u1'' ''Asha'' ''e1'' (Some ''R1'')
             None None None None None (db example_session)), False) \<and>
   mark_attendance prefix_sha (ev_mark_now example_event) ''u1'' ''Asha'' ''N/A'' 1
     ''Happy'' 100 None ''e1'' (to_double (91 / 100)) ''Main Campus''
     (Some (Update, ''disk I/O error'')) (db example_session) =
     (db example_session, False, ''disk I/O error'')"
proof -
  let ?d1 = "fst (add_user prefix_sha (ev_mark_now example_event) ''u1'' ''Asha'' ''e1'' (Some ''R1'')
             None None None None None (db example_session))"
  have a: "marks_for (db example_session) ''u1'' ''2025-01-01'' \<le> 1"
    "users_with_regno (db example_session) ''R1'' \<le> 1"
    by (simp_all add: example_session_def marks_for_def users_with_regno_def)
  have b: "marks_for (db example_conflict) ''u1'' ''2025-01-01'' = 1"
    by (rule example_conflict_marks)
  have c: "users_with_regno ?d1 ''R1'' = 1"
    by (simp add: add_user_def raises_def example_session_def truthy_def Let_def
        insert_or_replace_count user_record_def)
  have e: "mark_attendance prefix_sha (ev_mark_now example_event) ''u1'' ''Asha'' ''N/A'' 1
     ''Happy'' 100 None ''e1'' (to_double (91 / 100)) ''Main Campus''
     (Some (Update, ''disk I/O error'')) (db example_session) =
     (db example_session, False, ''disk I/O error'')"
    by (simp add: mark_attendance_def raises_def already_marked_def example_session_def
        example_event_def Let_def)
  have b': "marks_for (db example_conflict) ''u1'' ''2025-01-01'' \<le> 1"
    using b by simp
  have c': "0 < users_with_regno ?d1 ''R1''" "''R1'' \<noteq> []"
    using c by simp_all
  have m: "marks_for
     (fst (mark_attendance prefix_sha (ev_mark_now example_event) ''u1'' ''Asha'' ''N/A'' 1
             ''Happy'' 100 None ''e1'' (to_double (91 / 100)) ''Main Campus'' None
             (db example_conflict)))
     ''u1'' ''2025-01-01'' \<le> 1"
    using storage_uniqueness[where d = "db example_conflict" and r = "''R1''" and u = "''u1''"
      and dt = "''2025-01-01''" and sha256_hex = prefix_sha and now = "ev_mark_now example_event"
      and user_id = "''u1''" and name = "''Asha''" and registration_number = "''N/A''"
      and liveness_score = 1 and emotion = "''Happy''" and engagement_score = 100
      and blockchain_hash = None and face_encoding = "''e1''"
      and confidence = "to_double (91 / 100)" and location = "''Main Campus''" and fault = None
      and row = "user_record prefix_sha (ev_mark_now example_event) ''u1'' ''Asha'' ''e1''
                   (Some ''R1'') None None None None"
      and regno = "Some ''R1''" and email = None and department = None and phone = None
      and created_by = None] b'
    by blast
  have n: "add_user prefix_sha (ev_mark_now example_event) ''u2'' ''Bela'' ''e2'' (Some ''R1'')
     None None None None None ?d1 = (?d1, False)"
    using storage_uniqueness[where d = ?d1 and r = "''R1''" and u = "''u1''"
      and dt = "''2025-01-01''" and sha256_hex = prefix_sha and now = "ev_mark_now example_event"
      and user_id = "''u2''" and name = "''Bela''" and registration_number = "''N/A''"
      and liveness_score = 1 and emotion = "''Happy''" and engagement_score = 100
      and blockchain_hash = None and face_encoding = "''e2''"
      and confidence = "to_double (91 / 100)" and location = "''Main Campus''" and fault = None
      and row = "user_record prefix_sha (ev_mark_now example_event) ''u2'' ''Bela'' ''e2''
                   (Some ''R1'') None None None None"
      and regno = "Some ''R1''" and email = None and department = None and phone = None
      and created_by = None] c'
    by blast
  from a b c e m n
  show ?thesis by simp
qed

end
